theory Spec2Isabelle
  imports Main "HOL-Library.Word"
begin

section \<open>The libcamera ROS driver nodelet\<close>

text \<open>
  A shallow embedding of \<^verbatim>\<open>src/libcamera_ros_driver.cpp\<close>: the control validator
  (\<^verbatim>\<open>declareControlParameters\<close>, \<^verbatim>\<open>updateControlParameter\<close>), the part of
  \<^verbatim>\<open>onInit\<close> that follows the stream configuration (control staging, buffer mapping,
  request pool, camera start) and the completion handler \<^verbatim>\<open>requestComplete\<close>.

  The member variables of the class end in an underscore in the source
  (\<^verbatim>\<open>parameters_\<close>, \<^verbatim>\<open>buffer_info_\<close>, ...); the record fields below drop it.
  The two mutexes are not modelled: every function here is one uninterrupted
  sequential run of its body.
\<close>

subsection \<open>Controls\<close>

text \<open>libcamera's \<^verbatim>\<open>ControlType\<close>, \<^verbatim>\<open>ControlId\<close>, \<^verbatim>\<open>ControlValue\<close> and
  \<^verbatim>\<open>ControlInfo\<close>, as far as the driver reads them. The payload of a control value
  is of a type \<open>'v\<close>; a null \<^verbatim>\<open>const ControlId *\<close> is \<open>None\<close>.\<close>

datatype ControlType =
    ControlTypeNone | ControlTypeBool | ControlTypeByte | ControlTypeInteger32
  | ControlTypeInteger64 | ControlTypeFloat | ControlTypeString
  | ControlTypeRectangle | ControlTypeSize

record ControlId =
  cid_id :: nat
  cid_name :: string
  cid_type :: ControlType

record 'v ControlValue =
  cv_type :: ControlType
  cv_isArray :: bool
  cv_numElements :: nat
  cv_data :: 'v

record 'v ControlInfo =
  ci_min :: "'v ControlValue"
  ci_max :: "'v ControlValue"
  ci_def :: "'v ControlValue"

definition isNone :: "'v ControlValue \<Rightarrow> bool" where
  "isNone v = (cv_type v = ControlTypeNone)"

text \<open>Modelled from the spec: \<^verbatim>\<open>operator<\<close> and \<^verbatim>\<open>operator>\<close> on control values are
  declared in \<^verbatim>\<open>libcamera_ros_driver/utils/clamp.h\<close>, which is not among the sources.
  The spec speaks of \<open>min \<le> value\<close> and \<open>value \<le> max\<close>: the two operators are taken
  to be the strict order of a linearly ordered payload (integers, or floats without
  NaN).\<close>

definition cv_less :: "('v::linorder) ControlValue \<Rightarrow> 'v ControlValue \<Rightarrow> bool" where
  "cv_less a b = (cv_data a < cv_data b)"

definition cv_greater :: "('v::linorder) ControlValue \<Rightarrow> 'v ControlValue \<Rightarrow> bool" where
  "cv_greater a b = (cv_data b < cv_data a)"

text \<open>The outcome of \<^verbatim>\<open>updateControlParameter\<close>: \<open>Accepted\<close> is \<^verbatim>\<open>return true\<close>,
  \<open>Rejected e\<close> is the error line \<open>e\<close> logged and \<^verbatim>\<open>return false\<close>, \<open>Threw x\<close> is an
  exception leaving the function (\<^verbatim>\<open>ControlInfoMap::at\<close> on a missing key,
  \<^verbatim>\<open>get_extent\<close> on an id it does not know).\<close>

datatype upd_error = TypeNotDefined | TypesMismatch | DimensionsMismatch | OutsideRange

datatype exn = OutOfRangeExn | RuntimeErrorExn

datatype upd_result = Accepted | Rejected upd_error | Threw exn

text \<open>\<^verbatim>\<open>updateControlParameter(value, id)\<close>. \<open>get_extent\<close> is the function of
  \<^verbatim>\<open>utils/type_extent.h\<close> (absent; \<open>None\<close> when it throws), \<open>controls\<close> is
  \<^verbatim>\<open>camera_->controls()\<close> in iteration order, \<open>parameters\<close> is the member
  \<^verbatim>\<open>parameters_\<close>, returned as the function leaves it.\<close>

definition updateControlParameter ::
  "(ControlId \<Rightarrow> nat option) \<Rightarrow> (ControlId \<times> ('v::linorder) ControlInfo) list \<Rightarrow>
   'v ControlValue \<Rightarrow> ControlId \<Rightarrow> (nat \<rightharpoonup> 'v ControlValue) \<Rightarrow>
   upd_result \<times> (nat \<rightharpoonup> 'v ControlValue)" where
  "updateControlParameter get_extent controls val cid parameters =
    (if isNone val then (Rejected TypeNotDefined, parameters)
     else case map_of controls cid of
       None \<Rightarrow> (Threw OutOfRangeExn, parameters)
     | Some ci \<Rightarrow>
        if cv_type val \<noteq> cid_type cid then (Rejected TypesMismatch, parameters)
        else (case get_extent cid of
          None \<Rightarrow> (Threw RuntimeErrorExn, parameters)
        | Some extent \<Rightarrow>
           if (cv_isArray val \<and> extent > 0) \<and> cv_numElements val \<noteq> extent
           then (Rejected DimensionsMismatch, parameters)
           else if cv_less val (ci_min ci) \<or>
                   (if cv_greater (ci_max ci) (ci_min ci) then cv_greater val (ci_max ci)
                    else False)
           then (Rejected OutsideRange, parameters)
           else (Accepted, parameters(cid_id cid \<mapsto> val))))"

text \<open>The scenario of the spec: \<open>ExposureTime\<close>, a 32-bit integer in \<open>[100, 1000000]\<close>.\<close>

definition ExposureTime :: ControlId where
  "ExposureTime = \<lparr>cid_id = 7, cid_name = ''ExposureTime'', cid_type = ControlTypeInteger32\<rparr>"

definition int32_value :: "int \<Rightarrow> int ControlValue" where
  "int32_value n =
     \<lparr>cv_type = ControlTypeInteger32, cv_isArray = False, cv_numElements = 1, cv_data = n\<rparr>"

definition exposure_info :: "int ControlInfo" where
  "exposure_info =
     \<lparr>ci_min = int32_value 100, ci_max = int32_value 1000000, ci_def = int32_value 10000\<rparr>"

definition scalar_extent :: "ControlId \<Rightarrow> nat option" where
  "scalar_extent cid = Some 0"

subsection \<open>Frames, requests and the driver state\<close>

type_synonym byte = "8 word"

text \<open>Unsigned 32-bit arithmetic (\<^verbatim>\<open>unsigned int\<close>), with the wrap-around written out.\<close>

definition u32 :: "nat \<Rightarrow> nat" where
  "u32 n = n mod 2 ^ 32"

datatype RequestStatus = RequestPending | RequestComplete | RequestCancelled

text \<open>A plane of a frame buffer. \<^verbatim>\<open>plane.fd\<close> is a \<^verbatim>\<open>SharedFD\<close>: \<open>None\<close> is the
  invalid one, whose \<^verbatim>\<open>get()\<close> is \<open>-1\<close>. Offset and length are \<^verbatim>\<open>unsigned int\<close>.\<close>

record Plane =
  plane_fd :: "nat option"
  plane_offset :: nat
  plane_length :: nat

text \<open>\<^verbatim>\<open>FrameMetadata\<close>: the device timestamp in nanoseconds and the
  \<^verbatim>\<open>bytesused\<close> of each plane.\<close>

record FrameMetadata =
  md_timestamp :: nat
  md_bytesused :: "nat list"

record FrameBuffer =
  fb_handle :: nat
  fb_planes :: "Plane list"
  fb_metadata :: FrameMetadata

text \<open>A \<^verbatim>\<open>libcamera::Request\<close>: its status, its control list and its buffer map
  (stream to buffer).\<close>

record 'v Request =
  req_status :: RequestStatus
  req_controls :: "nat \<rightharpoonup> 'v ControlValue"
  req_buffers :: "(nat \<times> FrameBuffer) list"

record StreamConfiguration =
  cfg_pixelFormat :: nat
  cfg_width :: nat
  cfg_height :: nat
  cfg_stride :: nat

text \<open>\<^verbatim>\<open>buffer_info_t\<close>: the address returned by \<^verbatim>\<open>mmap\<close> (\<open>None\<close> is the null
  pointer of a default-constructed entry) and the mapped length.\<close>

record buffer_info_t =
  bi_data :: "nat option"
  bi_size :: nat

text \<open>The messages handed to the publisher. Times are integer nanoseconds:
  \<^verbatim>\<open>ros::Time\<close> and \<^verbatim>\<open>ros::Duration\<close> arithmetic is exact inside their
  32-bit second range, and is taken as exact here.\<close>

record Header =
  hdr_stamp :: int
  hdr_frame_id :: string

record Image =
  img_header :: Header
  img_width :: nat
  img_height :: nat
  img_encoding :: string
  img_is_bigendian :: bool
  img_step :: nat
  img_data :: "byte list"

record CameraInfo =
  cinfo_header :: Header
  cinfo_calibration :: nat

text \<open>The lines written with \<^verbatim>\<open>ROS_ERROR\<close> and \<^verbatim>\<open>ROS_INFO\<close>, one constructor for
  each message of the modelled code.\<close>

datatype log_line =
    InfoAvailableControls | InfoNotHandled string | InfoControl string
  | ErrMinMaxSizes | ErrUpdate string upd_error | ErrAwbEnableNotAvailable
  | ErrCantCreateRequest | ErrInvalidOffset | ErrFdNotValid | ErrFdsDiffer
  | ErrMmapFailed | ErrCantSetBuffer | ErrFailedToStart | InfoInitialized
  | ErrUnsupportedPixelFormat | ErrRequestCancelled

text \<open>The state of the nodelet: the members of \<^verbatim>\<open>LibcameraRosDriver\<close>, and what the
  driver can observe of its collaborators: whether the camera runs and the requests
  queued to it, whether \<^verbatim>\<open>ros::shutdown()\<close> was called, what was published, what was
  logged. \<open>parameter_ids\<close> maps a name to a possibly null pointer.\<close>

record 'v driver =
  camera_running :: bool
  camera_queue :: "'v Request list"
  shutdown_requested :: bool
  stream :: nat
  stream_cfg :: StreamConfiguration
  requests :: "'v Request list"
  frame_id :: string
  use_ros_time :: bool
  remove_stride :: bool
  start_time_offset :: int
  start_time_offset_obtained :: bool
  buffer_info :: "nat \<rightharpoonup> buffer_info_t"
  cinfo :: nat
  published :: "(Image \<times> CameraInfo) list"
  parameter_ids :: "string \<rightharpoonup> ControlId option"
  parameters :: "nat \<rightharpoonup> 'v ControlValue"
  ros_log :: "log_line list"

text \<open>The ways the process dies inside the modelled code: a failed \<^verbatim>\<open>assert\<close>
  (the source has them; they are compiled in unless \<^verbatim>\<open>NDEBUG\<close> is set), a null
  pointer dereferenced, a \<^verbatim>\<open>memcpy\<close> outside the region it reads or writes, an
  exception nobody catches.\<close>

datatype crash = AssertionFailed | NullDeref | MemoryFault | Uncaught exn

text \<open>Modelled from the spec: \<^verbatim>\<open>FormatType\<close>, \<^verbatim>\<open>format_type\<close> and
  \<^verbatim>\<open>get_ros_encoding\<close> come from \<^verbatim>\<open>utils/format_mapping.h\<close>, which is not among
  the sources. The handler only asks whether the type is \<^verbatim>\<open>RAW\<close> (the spec's
  raw/uncompressed family); \<open>NotRAW\<close> stands for every other enumerator. The two
  functions, and the byte order of the platform, are parameters.\<close>

datatype FormatType = RAW | NotRAW

record externals =
  format_type :: "nat \<Rightarrow> FormatType"
  get_ros_encoding :: "nat \<Rightarrow> string"
  big_endian :: bool

subsection \<open>The device interface\<close>

text \<open>libcamera is a library, outside the repository. Of \<^verbatim>\<open>Request::reuse(ReuseBuffers)\<close>
  the model keeps what its documentation states: the status and the controls of the
  request are reset, the buffers stay. Of \<^verbatim>\<open>Camera::queueRequest\<close> it keeps that a
  running camera takes the request into its queue and a camera that does not run
  refuses it; the driver ignores the return value.\<close>

definition reuse :: "'v Request \<Rightarrow> 'v Request" where
  "reuse r = r\<lparr>req_status := RequestPending, req_controls := Map.empty\<rparr>"

definition queueRequest :: "'v Request \<Rightarrow> 'v driver \<Rightarrow> 'v driver" where
  "queueRequest r d =
     (if camera_running d then d\<lparr>camera_queue := camera_queue d @ [r]\<rparr> else d)"

subsection \<open>The completion handler\<close>

text \<open>Lines 617 to 628: the header of the frame. \<open>now\<close> is what
  \<^verbatim>\<open>ros::Time::now()\<close> returns during this call.\<close>

definition stamp_header :: "nat \<Rightarrow> int \<Rightarrow> 'v driver \<Rightarrow> Header \<times> 'v driver" where
  "stamp_header timestamp now d =
     (if use_ros_time d then
        (let d1 = (if \<not> start_time_offset_obtained d
                   then d\<lparr>start_time_offset := now - int timestamp,
                          start_time_offset_obtained := True\<rparr>
                   else d)
         in (\<lparr>hdr_stamp = int timestamp + start_time_offset d1,
               hdr_frame_id = frame_id d1\<rparr>, d1))
      else (\<lparr>hdr_stamp = int timestamp, hdr_frame_id = frame_id d\<rparr>, d))"

text \<open>\<^verbatim>\<open>memcpy\<close> of \<open>n\<close> bytes out of the mapped region of a buffer, starting \<open>off\<close>
  bytes into it. \<open>mem\<close> is the memory of the process, byte by address, as it is
  during the call.\<close>

definition memcpy_from ::
  "(nat \<Rightarrow> byte) \<Rightarrow> buffer_info_t \<Rightarrow> nat \<Rightarrow> nat \<Rightarrow> crash + byte list" where
  "memcpy_from mem info off n =
     (if n = 0 then Inr []
      else case bi_data info of
        None \<Rightarrow> Inl NullDeref
      | Some a \<Rightarrow>
          if off + n \<le> bi_size info then Inr (map mem [a + off ..< a + off + n])
          else Inl MemoryFault)"

text \<open>Lines 655 to 660: the loop that copies the rows, over the row indices still to
  do. \<open>w\<close> and \<open>st\<close> are \<^verbatim>\<open>cfg.size.width\<close> and \<^verbatim>\<open>cfg.stride\<close>; the constant 3 is
  the source's.\<close>

fun copy_rows ::
  "(nat \<Rightarrow> byte) \<Rightarrow> buffer_info_t \<Rightarrow> nat \<Rightarrow> nat \<Rightarrow> nat list \<Rightarrow> byte list \<Rightarrow>
   crash + byte list" where
  "copy_rows mem info w st [] dst = Inr dst"
| "copy_rows mem info w st (i # rows) dst =
     (case memcpy_from mem info (u32 (i * st)) (u32 (w * 3)) of
        Inl c \<Rightarrow> Inl c
      | Inr bytes \<Rightarrow>
          if u32 (i * w * 3) + u32 (w * 3) \<le> length dst
          then copy_rows mem info w st rows
                 (take (u32 (i * w * 3)) dst @ bytes @
                  drop (u32 (i * w * 3) + u32 (w * 3)) dst)
          else Inl MemoryFault)"

text \<open>Lines 635 to 661: the raw branch, from the assertion to the filled message.\<close>

definition assemble_raw ::
  "externals \<Rightarrow> (nat \<Rightarrow> byte) \<Rightarrow> Header \<Rightarrow> StreamConfiguration \<Rightarrow> bool \<Rightarrow>
   buffer_info_t \<Rightarrow> nat \<Rightarrow> crash + Image" where
  "assemble_raw x mem hdr cfg rs info bytesused =
     (if bi_size info \<noteq> bytesused then Inl AssertionFailed
      else if \<not> rs then
        (case memcpy_from mem info 0 (bi_size info) of
           Inl c \<Rightarrow> Inl c
         | Inr bytes \<Rightarrow>
             Inr \<lparr>img_header = hdr, img_width = cfg_width cfg, img_height = cfg_height cfg,
                  img_encoding = get_ros_encoding x (cfg_pixelFormat cfg),
                  img_is_bigendian = big_endian x,
                  img_step = cfg_stride cfg, img_data = bytes\<rparr>)
      else
        (case copy_rows mem info (cfg_width cfg) (cfg_stride cfg) [0 ..< cfg_height cfg]
                (replicate (u32 (cfg_width cfg * cfg_height cfg * 3)) 0) of
           Inl c \<Rightarrow> Inl c
         | Inr bytes \<Rightarrow>
             Inr \<lparr>img_header = hdr, img_width = cfg_width cfg, img_height = cfg_height cfg,
                  img_encoding = get_ros_encoding x (cfg_pixelFormat cfg),
                  img_is_bigendian = big_endian x,
                  img_step = u32 (cfg_width cfg * 3), img_data = bytes\<rparr>))"

text \<open>\<^verbatim>\<open>buffer_info_[buffer]\<close>: \<^verbatim>\<open>operator[]\<close> of the unordered map inserts a
  default entry for a key it does not hold.\<close>

definition buffer_info_at :: "nat \<Rightarrow> 'v driver \<Rightarrow> buffer_info_t \<times> 'v driver" where
  "buffer_info_at h d =
     (case buffer_info d h of
        Some info \<Rightarrow> (info, d)
      | None \<Rightarrow> (\<lparr>bi_data = None, bi_size = 0\<rparr>,
                 d\<lparr>buffer_info := (buffer_info d)(h \<mapsto> \<lparr>bi_data = None, bi_size = 0\<rparr>)\<rparr>))"

definition publish :: "Image \<Rightarrow> CameraInfo \<Rightarrow> 'v driver \<Rightarrow> 'v driver" where
  "publish image_msg cinfo_msg d = d\<lparr>published := published d @ [(image_msg, cinfo_msg)]\<rparr>"

text \<open>Lines 681 to 683: \<^verbatim>\<open>request->reuse(ReuseBuffers); camera_->queueRequest(request)\<close>.\<close>

definition requeue :: "'v Request \<Rightarrow> 'v driver \<Rightarrow> 'v driver" where
  "requeue request d = queueRequest (reuse request) d"

text \<open>\<^verbatim>\<open>requestComplete(request)\<close>. The result is the crash that ends the process, or
  the state in which the handler returns.\<close>

definition requestComplete ::
  "externals \<Rightarrow> int \<Rightarrow> (nat \<Rightarrow> byte) \<Rightarrow> 'v Request \<Rightarrow> 'v driver \<Rightarrow> crash + 'v driver" where
  "requestComplete x now mem request d =
     (if req_status request = RequestComplete then
        (if length (req_buffers request) \<noteq> 1 then Inl AssertionFailed
         else case map_of (req_buffers request) (stream d) of
           None \<Rightarrow> Inl NullDeref
         | Some buffer \<Rightarrow>
            (let metadata = fb_metadata buffer;
                 bytesused = sum_list (md_bytesused metadata);
                 (hdr, d1) = stamp_header (md_timestamp metadata) now d;
                 cfg = stream_cfg d1
             in if format_type x (cfg_pixelFormat cfg) = RAW then
                  (let (info, d2) = buffer_info_at (fb_handle buffer) d1
                   in case assemble_raw x mem hdr cfg (remove_stride d2) info bytesused of
                        Inl c \<Rightarrow> Inl c
                      | Inr image_msg \<Rightarrow>
                          Inr (requeue request
                                (publish image_msg
                                   \<lparr>cinfo_header = hdr, cinfo_calibration = cinfo d2\<rparr> d2)))
                else Inr (d1\<lparr>ros_log := ros_log d1 @ [ErrUnsupportedPixelFormat]\<rparr>)))
      else if req_status request = RequestCancelled then
        Inr (requeue request (d\<lparr>ros_log := ros_log d @ [ErrRequestCancelled]\<rparr>))
      else Inr (requeue request d))"

subsection \<open>Start-up: declaring and staging the controls\<close>

text \<open>\<^verbatim>\<open>onInit\<close> and its helper return \<^verbatim>\<open>void\<close>. A call ends in one of three ways:
  the process dies (\<open>Crash\<close>), the function has called \<^verbatim>\<open>ros::shutdown()\<close> and
  returned early (\<open>Abort\<close>, with the state it leaves), or it goes on to its next
  statement (\<open>Go\<close>).\<close>

datatype 'v flow = Crash crash | Abort "'v driver" | Go "'v driver"

text \<open>What start-up reads from its collaborators: the controls the camera reports
  (\<^verbatim>\<open>camera_->controls()\<close>, in iteration order), \<^verbatim>\<open>get_extent\<close>, the optional
  \<^verbatim>\<open>control/...\<close> parameters, the buffers the allocator made, the operating system's
  \<^verbatim>\<open>mmap\<close>, and whether \<^verbatim>\<open>createRequest\<close>, \<^verbatim>\<open>addBuffer\<close> and
  \<^verbatim>\<open>camera_->start()\<close> succeed.

  \<open>control_param e key\<close> is \<open>None\<close> when the parameter \<open>key\<close> is not set. When it is
  set, it yields the function that turns the type of the control into the value
  handed to \<^verbatim>\<open>updateControlParameter\<close>: the parameter read, converted as the block
  does, then passed through \<^verbatim>\<open>pv_to_cv\<close> of \<^verbatim>\<open>utils/pv_to_cv.h\<close> (absent).\<close>

datatype mmap_prot = PROT_NONE | PROT_READ | PROT_WRITE | PROT_EXEC

datatype mmap_flags = MAP_SHARED | MAP_PRIVATE

record mmap_call =
  mm_addr :: "nat option"
  mm_length :: nat
  mm_prot :: mmap_prot
  mm_flags :: mmap_flags
  mm_fd :: int
  mm_offset :: nat

record 'v init_env =
  device_controls :: "(ControlId \<times> 'v ControlInfo) list"
  extent_of :: "ControlId \<Rightarrow> nat option"
  control_param :: "string \<Rightarrow> (ControlType \<Rightarrow> 'v ControlValue) option"
  stream_buffers :: "FrameBuffer list"
  os_mmap :: "mmap_call \<Rightarrow> nat option"
  createRequest_ok :: bool
  addBuffer_ok :: bool
  camera_start_ok :: bool

text \<open>\<^verbatim>\<open>ROS_ERROR(...); ros::shutdown();\<close> as it stands before each early
  \<^verbatim>\<open>return\<close>.\<close>

definition error_shutdown :: "log_line \<Rightarrow> 'v driver \<Rightarrow> 'v driver" where
  "error_shutdown l d = d\<lparr>shutdown_requested := True, ros_log := ros_log d @ [l]\<rparr>"

text \<open>\<^verbatim>\<open>declareControlParameters()\<close>, lines 528 to 551: the loop over the controls
  still to visit. The function returns \<^verbatim>\<open>void\<close>: the state is all its caller gets.\<close>

fun declare_loop ::
  "(ControlId \<Rightarrow> nat option) \<Rightarrow> (ControlId \<times> 'v ControlInfo) list \<Rightarrow> 'v driver \<Rightarrow> 'v driver" where
  "declare_loop ge [] d = d"
| "declare_loop ge ((cid, info) # rest) d =
     (case ge cid of
        None \<Rightarrow> declare_loop ge rest (d\<lparr>ros_log := ros_log d @ [InfoNotHandled (cid_name cid)]\<rparr>)
      | Some extent \<Rightarrow>
          (let d1 = d\<lparr>parameter_ids := (parameter_ids d)(cid_name cid \<mapsto> Some cid)\<rparr>
           in if cv_numElements (ci_min info) \<noteq> cv_numElements (ci_max info)
              then error_shutdown ErrMinMaxSizes d1
              else declare_loop ge rest
                     (d1\<lparr>ros_log := ros_log d1 @ [InfoControl (cid_name cid)]\<rparr>)))"

definition declareControlParameters :: "'v init_env \<Rightarrow> 'v driver \<Rightarrow> 'v driver" where
  "declareControlParameters e d =
     declare_loop (extent_of e) (device_controls e)
       (d\<lparr>ros_log := ros_log d @ [InfoAvailableControls]\<rparr>)"

text \<open>\<^verbatim>\<open>parameter_ids_[name]\<close>: \<^verbatim>\<open>operator[]\<close> inserts a null pointer for a name
  the map does not hold, and returns it.\<close>

definition parameter_ids_at :: "string \<Rightarrow> 'v driver \<Rightarrow> ControlId option \<times> 'v driver" where
  "parameter_ids_at name d =
     (case parameter_ids d name of
        Some p \<Rightarrow> (p, d)
      | None \<Rightarrow> (None, d\<lparr>parameter_ids := (parameter_ids d)(name \<mapsto> None)\<rparr>))"

text \<open>The call \<^verbatim>\<open>updateControlParameter(pv_to_cv(v, id->type()), id)\<close> for a pointer
  that is not null, as \<^verbatim>\<open>onInit\<close> makes it: the return value is dropped.\<close>

definition call_update ::
  "('v::linorder) init_env \<Rightarrow> (ControlType \<Rightarrow> 'v ControlValue) \<Rightarrow> ControlId \<Rightarrow> 'v driver \<Rightarrow> 'v flow" where
  "call_update e pv cid d =
     (case updateControlParameter (extent_of e) (device_controls e) (pv (cid_type cid)) cid
             (parameters d) of
        (Threw ex, ps) \<Rightarrow> Crash (Uncaught ex)
      | (Rejected err, ps) \<Rightarrow>
          Go (d\<lparr>parameters := ps, ros_log := ros_log d @ [ErrUpdate (cid_name cid) err]\<rparr>)
      | (Accepted, ps) \<Rightarrow> Go (d\<lparr>parameters := ps\<rparr>))"

text \<open>One block of lines 344 to 395. All blocks but one read
  \<^verbatim>\<open>parameter_ids_[name]->type()\<close> at once (\<open>guarded = False\<close>); the block of
  \<^verbatim>\<open>AwbEnable\<close>, lines 361 to 366, tests the pointer first (\<open>guarded = True\<close>).\<close>

definition stage_control ::
  "('v::linorder) init_env \<Rightarrow> string \<times> string \<times> bool \<Rightarrow> 'v driver \<Rightarrow> 'v flow" where
  "stage_control e block d =
     (case block of (key, name, guarded) \<Rightarrow>
        (case control_param e key of
           None \<Rightarrow> Go d
         | Some pv \<Rightarrow>
             (case parameter_ids_at name d of
                (Some cid, d1) \<Rightarrow> call_update e pv cid d1
              | (None, d1) \<Rightarrow>
                  if guarded then Go (d1\<lparr>ros_log := ros_log d1 @ [ErrAwbEnableNotAvailable]\<rparr>)
                  else Crash NullDeref)))"

text \<open>The fifteen blocks in the order of the source: parameter, control, guarded.\<close>

definition control_blocks :: "(string \<times> string \<times> bool) list" where
  "control_blocks =
     [(''control/exposure_time'', ''ExposureTime'', False),
      (''control/fps'', ''FrameDurationLimits'', False),
      (''control/ae_constraint_mode'', ''AeConstraintMode'', False),
      (''control/brightness'', ''Brightness'', False),
      (''control/sharpness'', ''Sharpness'', False),
      (''control/awb_enable'', ''AwbEnable'', True),
      (''control/ae_enable'', ''AeEnable'', False),
      (''control/saturation'', ''Saturation'', False),
      (''control/contrast'', ''Contrast'', False),
      (''control/exposure_value'', ''ExposureValue'', False),
      (''control/analogue_gain'', ''AnalogueGain'', False),
      (''control/awb_mode'', ''AwbMode'', False),
      (''control/ae_metering_mode'', ''AeMeteringMode'', False),
      (''control/scaler_crop'', ''ScalerCrop'', False),
      (''control/control'', ''AeExposureMode'', False)]"

fun stage_controls ::
  "('v::linorder) init_env \<Rightarrow> (string \<times> string \<times> bool) list \<Rightarrow> 'v driver \<Rightarrow> 'v flow" where
  "stage_controls e [] d = Go d"
| "stage_controls e (block # blocks) d =
     (case stage_control e block d of
        Crash c \<Rightarrow> Crash c
      | Abort d1 \<Rightarrow> Abort d1
      | Go d1 \<Rightarrow> stage_controls e blocks d1)"

subsection \<open>Start-up: mapping the buffers and building the pool\<close>

definition kInvalidOffset :: nat where
  "kInvalidOffset = 4294967295"

text \<open>\<^verbatim>\<open>SharedFD::isValid()\<close> and \<^verbatim>\<open>SharedFD::get()\<close>.\<close>

definition fd_isValid :: "nat option \<Rightarrow> bool" where
  "fd_isValid f = (f \<noteq> None)"

definition fd_get :: "nat option \<Rightarrow> int" where
  "fd_get f = (case f of None \<Rightarrow> - 1 | Some n \<Rightarrow> int n)"

datatype map_error = InvalidOffset | FdNotValid | FdsDiffer | MmapFailed

text \<open>Lines 416 to 439: the loop over the planes still to visit, with the locals
  \<^verbatim>\<open>buffer_length\<close> and \<^verbatim>\<open>fd\<close>. The sum of offset and length is an
  \<^verbatim>\<open>unsigned int\<close>.\<close>

fun scan_planes :: "Plane list \<Rightarrow> nat \<Rightarrow> int \<Rightarrow> map_error + (nat \<times> int)" where
  "scan_planes [] buffer_length fd = Inr (buffer_length, fd)"
| "scan_planes (plane # planes) buffer_length fd =
     (if plane_offset plane = kInvalidOffset then Inl InvalidOffset
      else if \<not> fd_isValid (plane_fd plane) then Inl FdNotValid
      else if fd = - 1
        then scan_planes planes
               (max buffer_length (u32 (plane_offset plane + plane_length plane)))
               (fd_get (plane_fd plane))
      else if fd \<noteq> fd_get (plane_fd plane) then Inl FdsDiffer
      else scan_planes planes
             (max buffer_length (u32 (plane_offset plane + plane_length plane))) fd)"

text \<open>Lines 413 to 450: from the planes of a buffer to its entry of
  \<^verbatim>\<open>buffer_info_\<close>.\<close>

definition map_buffer :: "(mmap_call \<Rightarrow> nat option) \<Rightarrow> FrameBuffer \<Rightarrow> map_error + buffer_info_t" where
  "map_buffer mmap buffer =
     (case scan_planes (fb_planes buffer) 0 (- 1) of
        Inl err \<Rightarrow> Inl err
      | Inr (buffer_length, fd) \<Rightarrow>
          (case mmap \<lparr>mm_addr = None, mm_length = buffer_length, mm_prot = PROT_READ,
                      mm_flags = MAP_SHARED, mm_fd = fd, mm_offset = 0\<rparr> of
             None \<Rightarrow> Inl MmapFailed
           | Some data \<Rightarrow> Inr \<lparr>bi_data = Some data, bi_size = buffer_length\<rparr>))"

definition map_error_line :: "map_error \<Rightarrow> log_line" where
  "map_error_line err =
     (case err of InvalidOffset \<Rightarrow> ErrInvalidOffset | FdNotValid \<Rightarrow> ErrFdNotValid
      | FdsDiffer \<Rightarrow> ErrFdsDiffer | MmapFailed \<Rightarrow> ErrMmapFailed)"

text \<open>Lines 403 to 464: the loop over the buffers still to visit. A fresh request
  is pending and has no controls and no buffers.\<close>

fun build_requests :: "'v init_env \<Rightarrow> FrameBuffer list \<Rightarrow> 'v driver \<Rightarrow> 'v flow" where
  "build_requests e [] d = Go d"
| "build_requests e (buffer # buffers) d =
     (if \<not> createRequest_ok e then Abort (error_shutdown ErrCantCreateRequest d)
      else case map_buffer (os_mmap e) buffer of
        Inl err \<Rightarrow> Abort (error_shutdown (map_error_line err) d)
      | Inr info \<Rightarrow>
          (let d1 = d\<lparr>buffer_info := (buffer_info d)(fb_handle buffer \<mapsto> info)\<rparr>
           in if \<not> addBuffer_ok e then Abort (error_shutdown ErrCantSetBuffer d1)
              else build_requests e buffers
                     (d1\<lparr>requests := requests d1 @
                          [\<lparr>req_status = RequestPending,
                            req_controls = Map.empty ++ parameters d1,
                            req_buffers = [(stream d1, buffer)]\<rparr>]\<rparr>)))"

text \<open>\<^verbatim>\<open>onInit()\<close> from line 336 on. The state it starts in is the one line 334
  leaves: parameters loaded, camera acquired, stream configured.\<close>

definition onInit :: "('v::linorder) init_env \<Rightarrow> 'v driver \<Rightarrow> 'v flow" where
  "onInit e d =
     (case stage_controls e control_blocks (declareControlParameters e d) of
        Crash c \<Rightarrow> Crash c
      | Abort d1 \<Rightarrow> Abort d1
      | Go d1 \<Rightarrow>
          (case build_requests e (stream_buffers e) d1 of
             Crash c \<Rightarrow> Crash c
           | Abort d2 \<Rightarrow> Abort d2
           | Go d2 \<Rightarrow>
               if \<not> camera_start_ok e then Abort (error_shutdown ErrFailedToStart d2)
               else (let d3 = fold queueRequest (requests d2) (d2\<lparr>camera_running := True\<rparr>)
                     in Go (d3\<lparr>ros_log := ros_log d3 @ [InfoInitialized]\<rparr>))))"

subsection \<open>Runs of the handler\<close>

text \<open>The camera calls the handler once for each completed request. A completion
  is the request together with what the handler reads from outside during the call:
  the wall clock and the memory.\<close>

type_synonym 'v completion = "int \<times> (nat \<Rightarrow> byte) \<times> 'v Request"

fun run :: "externals \<Rightarrow> 'v completion list \<Rightarrow> 'v driver \<Rightarrow> crash + 'v driver" where
  "run x [] d = Inr d"
| "run x ((now, mem, request) # evs) d =
     (case requestComplete x now mem request d of
        Inl c \<Rightarrow> Inl c
      | Inr d1 \<Rightarrow> run x evs d1)"

text \<open>The device timestamp of the buffer a request carries for stream \<open>s\<close>, and the
  frames of a run that completed: wall clock at the callback and device timestamp.\<close>

definition device_timestamp :: "nat \<Rightarrow> 'v Request \<Rightarrow> nat" where
  "device_timestamp s r =
     (case map_of (req_buffers r) s of None \<Rightarrow> 0 | Some b \<Rightarrow> md_timestamp (fb_metadata b))"

fun completed_frames :: "nat \<Rightarrow> 'v completion list \<Rightarrow> (int \<times> nat) list" where
  "completed_frames s [] = []"
| "completed_frames s ((now, mem, request) # evs) =
     (if req_status request = RequestComplete
      then (now, device_timestamp s request) # completed_frames s evs
      else completed_frames s evs)"

definition published_stamps :: "'v driver \<Rightarrow> int list" where
  "published_stamps d = map (\<lambda>(image_msg, cinfo_msg). hdr_stamp (img_header image_msg)) (published d)"

text \<open>What a caller can see of a handler call: the steps and payloads handed to the
  publisher, the control lists of the requests in the camera's queue.\<close>

definition published_payloads :: "crash + 'v driver \<Rightarrow> (nat \<times> byte list) list" where
  "published_payloads res =
     (case res of
        Inl c \<Rightarrow> []
      | Inr d \<Rightarrow> map (\<lambda>(image_msg, cinfo_msg). (img_step image_msg, img_data image_msg))
                  (published d))"

definition queued_control :: "nat \<Rightarrow> crash + 'v driver \<Rightarrow> 'v ControlValue option list" where
  "queued_control k res =
     (case res of Inl c \<Rightarrow> [] | Inr d \<Rightarrow> map (\<lambda>r. req_controls r k) (camera_queue d))"

definition staged_control :: "nat \<Rightarrow> crash + 'v driver \<Rightarrow> 'v ControlValue option" where
  "staged_control k res = (case res of Inl c \<Rightarrow> None | Inr d \<Rightarrow> parameters d k)"

subsection \<open>A small camera\<close>

text \<open>Concrete values for the evaluations below. Pixel format 0 is a compressed
  format, 1 is an 8-bit grey format of one byte per pixel, 2 is a packed colour format of
  three bytes per pixel. The stream is 2 pixels wide and 2 rows high with a stride of
  8 bytes; its one buffer of 16 bytes, in two planes behind descriptor 5, is mapped at
  address 4096, where the byte at address \<open>a\<close> holds \<open>a mod 256\<close>. A completion
  carries the device timestamp \<open>ts\<close> and the count \<open>used\<close> of bytes the device
  wrote. Control 7 is staged at 500000.\<close>

definition example_externals :: externals where
  "example_externals =
     \<lparr>format_type = (\<lambda>f. if f = 0 then NotRAW else RAW),
      get_ros_encoding = (\<lambda>f. if f = 1 then ''mono8'' else ''rgb8''),
      big_endian = False\<rparr>"

definition example_memory :: "nat \<Rightarrow> byte" where
  "example_memory a = of_nat (a mod 256)"

definition example_buffer :: "nat \<Rightarrow> nat \<Rightarrow> FrameBuffer" where
  "example_buffer ts used =
     \<lparr>fb_handle = 1,
      fb_planes = [\<lparr>plane_fd = Some 5, plane_offset = 0, plane_length = 12\<rparr>,
                   \<lparr>plane_fd = Some 5, plane_offset = 12, plane_length = 4\<rparr>],
      fb_metadata = \<lparr>md_timestamp = ts, md_bytesused = [used]\<rparr>\<rparr>"

definition example_request :: "RequestStatus \<Rightarrow> nat \<Rightarrow> nat \<Rightarrow> int Request" where
  "example_request st ts used =
     \<lparr>req_status = st, req_controls = [7 \<mapsto> int32_value 500000],
      req_buffers = [(0, example_buffer ts used)]\<rparr>"

definition example_driver :: "nat \<Rightarrow> bool \<Rightarrow> bool \<Rightarrow> int driver" where
  "example_driver fmt rs urt =
     \<lparr>camera_running = True, camera_queue = [], shutdown_requested = False,
      stream = 0,
      stream_cfg = \<lparr>cfg_pixelFormat = fmt, cfg_width = 2, cfg_height = 2, cfg_stride = 8\<rparr>,
      requests = [example_request RequestPending 0 0],
      frame_id = ''camera'', use_ros_time = urt, remove_stride = rs,
      start_time_offset = 0, start_time_offset_obtained = False,
      buffer_info = [1 \<mapsto> \<lparr>bi_data = Some 4096, bi_size = 16\<rparr>],
      cinfo = 0, published = [],
      parameter_ids = [''ExposureTime'' \<mapsto> Some ExposureTime],
      parameters = [7 \<mapsto> int32_value 500000],
      ros_log = []\<rparr>"

text \<open>The small camera after \<^verbatim>\<open>camera_->stop()\<close>: the same state, the camera no longer
  running.\<close>

definition stopped_driver :: "int driver" where
  "stopped_driver = (example_driver 2 False False)\<lparr>camera_running := False\<rparr>"

text \<open>Start-up of the small camera: the state when the stream has been configured,
  an operating system that maps any region of positive length behind descriptor 5 at
  address 4096, and the collaborators of start-up for given \<^verbatim>\<open>control/...\<close>
  parameters, device controls and buffers. \<open>set_to n\<close> is a parameter set to the
  number \<open>n\<close>.\<close>

definition start_driver :: "int driver" where
  "start_driver =
     \<lparr>camera_running = False, camera_queue = [], shutdown_requested = False,
      stream = 0,
      stream_cfg = \<lparr>cfg_pixelFormat = 2, cfg_width = 2, cfg_height = 2, cfg_stride = 8\<rparr>,
      requests = [],
      frame_id = ''camera'', use_ros_time = False, remove_stride = False,
      start_time_offset = 0, start_time_offset_obtained = False,
      buffer_info = Map.empty, cinfo = 0, published = [],
      parameter_ids = Map.empty, parameters = Map.empty, ros_log = []\<rparr>"

definition example_mmap :: "mmap_call \<Rightarrow> nat option" where
  "example_mmap c = (if mm_fd c = 5 \<and> 0 < mm_length c then Some 4096 else None)"

definition set_to :: "int \<Rightarrow> ControlType \<Rightarrow> int ControlValue" where
  "set_to n t = \<lparr>cv_type = t, cv_isArray = False, cv_numElements = 1, cv_data = n\<rparr>"

definition example_env ::
  "(string \<Rightarrow> (ControlType \<Rightarrow> int ControlValue) option) \<Rightarrow>
   (ControlId \<times> int ControlInfo) list \<Rightarrow> FrameBuffer list \<Rightarrow> int init_env" where
  "example_env params ctrls bufs =
     \<lparr>device_controls = ctrls, extent_of = scalar_extent, control_param = params,
      stream_buffers = bufs, os_mmap = example_mmap,
      createRequest_ok = True, addBuffer_ok = True, camera_start_ok = True\<rparr>"

text \<open>A control whose minimum has one element and whose maximum has two.\<close>

definition lopsided_info :: "int ControlInfo" where
  "lopsided_info =
     \<lparr>ci_min = int32_value 100,
      ci_max = \<lparr>cv_type = ControlTypeInteger32, cv_isArray = True, cv_numElements = 2,
                cv_data = 1000000\<rparr>,
      ci_def = int32_value 10000\<rparr>"

text \<open>Two buffers that cannot be mapped: one whose plane has the undefined offset,
  one whose plane has no valid descriptor; and an operating system that maps whatever
  it is asked to.\<close>

definition offsetless_buffer :: FrameBuffer where
  "offsetless_buffer =
     \<lparr>fb_handle = 2,
      fb_planes = [\<lparr>plane_fd = Some 5, plane_offset = 4294967295, plane_length = 16\<rparr>],
      fb_metadata = \<lparr>md_timestamp = 0, md_bytesused = [0]\<rparr>\<rparr>"

definition unbacked_buffer :: FrameBuffer where
  "unbacked_buffer =
     \<lparr>fb_handle = 3,
      fb_planes = [\<lparr>plane_fd = None, plane_offset = 0, plane_length = 16\<rparr>],
      fb_metadata = \<lparr>md_timestamp = 0, md_bytesused = [0]\<rparr>\<rparr>"

definition lenient_mmap :: "mmap_call \<Rightarrow> nat option" where
  "lenient_mmap c = Some 4096"

section \<open>Theorems\<close>

subsection \<open>Range check of the control validator\<close>

lemma updateControlParameter_unchanged:
  "fst (updateControlParameter ge controls v cid ps) \<noteq> Accepted \<Longrightarrow>
   snd (updateControlParameter ge controls v cid ps) = ps"
  by (auto simp: updateControlParameter_def split: option.splits if_splits)

text \<open>
  Claim C3. For a control that the device declares with bounds \<open>ci\<close>: when
  \<^verbatim>\<open>updateControlParameter\<close> returns true, the value is staged under the control's id and
  satisfies \<open>min \<le> v\<close> and (\<open>max \<le> min\<close> or \<open>v \<le> max\<close>); when the value violates
  either clause, the call does not return true and \<^verbatim>\<open>parameters_\<close> is left exactly as
  it was (it returns false, unless \<^verbatim>\<open>get_extent\<close> throws first).
\<close>

theorem updateControlParameter_range:
  fixes v :: "('v::linorder) ControlValue"
  assumes "map_of controls cid = Some ci"
  shows "(fst (updateControlParameter ge controls v cid ps) = Accepted \<longrightarrow>
            snd (updateControlParameter ge controls v cid ps) (cid_id cid) = Some v \<and>
            cv_data (ci_min ci) \<le> cv_data v \<and>
            (cv_data (ci_max ci) \<le> cv_data (ci_min ci) \<or> cv_data v \<le> cv_data (ci_max ci)))
       \<and> (\<not> (cv_data (ci_min ci) \<le> cv_data v \<and>
              (cv_data (ci_max ci) \<le> cv_data (ci_min ci) \<or> cv_data v \<le> cv_data (ci_max ci))) \<longrightarrow>
            fst (updateControlParameter ge controls v cid ps) \<noteq> Accepted \<and>
            snd (updateControlParameter ge controls v cid ps) = ps \<and>
            (ge cid \<noteq> None \<longrightarrow>
               (\<exists>e. fst (updateControlParameter ge controls v cid ps) = Rejected e)))"
  using assms
  by (auto simp: updateControlParameter_def cv_less_def cv_greater_def
           split: option.splits if_splits)

theorem updateControlParameter_range_witness:
  "fst (updateControlParameter scalar_extent [(ExposureTime, exposure_info)]
          (int32_value 500000) ExposureTime Map.empty) = Accepted
   \<and> snd (updateControlParameter scalar_extent [(ExposureTime, exposure_info)]
          (int32_value 500000) ExposureTime Map.empty) 7 = Some (int32_value 500000)
   \<and> fst (updateControlParameter scalar_extent [(ExposureTime, exposure_info)]
          (int32_value 2000000) ExposureTime [7 \<mapsto> int32_value 500000]) = Rejected OutsideRange
   \<and> snd (updateControlParameter scalar_extent [(ExposureTime, exposure_info)]
          (int32_value 2000000) ExposureTime [7 \<mapsto> int32_value 500000])
       = [7 \<mapsto> int32_value 500000]"
  using updateControlParameter_range
          [of "[(ExposureTime, exposure_info)]" ExposureTime exposure_info
              scalar_extent "int32_value 500000" Map.empty]
        updateControlParameter_range
          [of "[(ExposureTime, exposure_info)]" ExposureTime exposure_info
              scalar_extent "int32_value 2000000" "[7 \<mapsto> int32_value 500000]"]
  by (simp add: updateControlParameter_def cv_less_def cv_greater_def isNone_def
        ExposureTime_def exposure_info_def int32_value_def scalar_extent_def)


subsection \<open>What the handler leaves alone\<close>

lemma stamp_header_fields:
  "stream_cfg (snd (stamp_header ts now d)) = stream_cfg d"
  "stream (snd (stamp_header ts now d)) = stream d"
  "remove_stride (snd (stamp_header ts now d)) = remove_stride d"
  "use_ros_time (snd (stamp_header ts now d)) = use_ros_time d"
  "published (snd (stamp_header ts now d)) = published d"
  "camera_queue (snd (stamp_header ts now d)) = camera_queue d"
  "camera_running (snd (stamp_header ts now d)) = camera_running d"
  "ros_log (snd (stamp_header ts now d)) = ros_log d"
  "buffer_info (snd (stamp_header ts now d)) = buffer_info d"
  "parameters (snd (stamp_header ts now d)) = parameters d"
  "cinfo (snd (stamp_header ts now d)) = cinfo d"
  by (simp_all add: stamp_header_def Let_def)

lemma buffer_info_at_fields:
  "stream_cfg (snd (buffer_info_at h d)) = stream_cfg d"
  "stream (snd (buffer_info_at h d)) = stream d"
  "remove_stride (snd (buffer_info_at h d)) = remove_stride d"
  "use_ros_time (snd (buffer_info_at h d)) = use_ros_time d"
  "published (snd (buffer_info_at h d)) = published d"
  "camera_queue (snd (buffer_info_at h d)) = camera_queue d"
  "camera_running (snd (buffer_info_at h d)) = camera_running d"
  "ros_log (snd (buffer_info_at h d)) = ros_log d"
  "parameters (snd (buffer_info_at h d)) = parameters d"
  "cinfo (snd (buffer_info_at h d)) = cinfo d"
  "start_time_offset (snd (buffer_info_at h d)) = start_time_offset d"
  "start_time_offset_obtained (snd (buffer_info_at h d)) = start_time_offset_obtained d"
  by (simp_all add: buffer_info_at_def split: option.splits)

lemma buffer_info_at_info:
  "fst (buffer_info_at h (snd (stamp_header ts now d))) = fst (buffer_info_at h d)"
  "fst (buffer_info_at h (d\<lparr>remove_stride := rs\<rparr>)) = fst (buffer_info_at h d)"
  by (simp_all add: buffer_info_at_def stamp_header_fields split: option.splits)

text \<open>The handler on a completed frame of a raw format, with the header and the
  buffer entry it works on spelled out.\<close>

lemma requestComplete_raw:
  assumes "req_status request = RequestComplete"
    and "length (req_buffers request) = 1"
    and "map_of (req_buffers request) (stream d) = Some buffer"
    and "format_type x (cfg_pixelFormat (stream_cfg d)) = RAW"
  shows "requestComplete x now mem request d =
    (case assemble_raw x mem (fst (stamp_header (md_timestamp (fb_metadata buffer)) now d))
            (stream_cfg d) (remove_stride d) (fst (buffer_info_at (fb_handle buffer) d))
            (sum_list (md_bytesused (fb_metadata buffer))) of
       Inl c \<Rightarrow> Inl c
     | Inr image_msg \<Rightarrow>
         Inr (requeue request
               (publish image_msg
                  \<lparr>cinfo_header = fst (stamp_header (md_timestamp (fb_metadata buffer)) now d),
                   cinfo_calibration = cinfo d\<rparr>
                  (snd (buffer_info_at (fb_handle buffer)
                          (snd (stamp_header (md_timestamp (fb_metadata buffer)) now d)))))))"
  using assms
  by (simp add: requestComplete_def Let_def split_beta stamp_header_fields
        buffer_info_at_fields buffer_info_at_info cong: sum.case_cong)

subsection \<open>Cancelled requests\<close>

text \<open>
  Claim C6, amended. When the callback fires for a request whose status is cancelled,
  the handler returns; it has logged the cancellation, published nothing, reset the
  request (status pending, buffers kept) and handed it to \<^verbatim>\<open>queueRequest\<close>. A running
  camera takes the reset request at the end of its queue; a camera that has been
  stopped refuses it, and its queue is left as it was.
\<close>

theorem requestComplete_cancelled:
  assumes "req_status request = RequestCancelled"
  shows "requestComplete x now mem request d =
           Inr (queueRequest (reuse request) (d\<lparr>ros_log := ros_log d @ [ErrRequestCancelled]\<rparr>))
       \<and> published (queueRequest (reuse request)
                      (d\<lparr>ros_log := ros_log d @ [ErrRequestCancelled]\<rparr>)) = published d
       \<and> ros_log (queueRequest (reuse request)
                      (d\<lparr>ros_log := ros_log d @ [ErrRequestCancelled]\<rparr>))
            = ros_log d @ [ErrRequestCancelled]
       \<and> (camera_running d \<longrightarrow>
            camera_queue (queueRequest (reuse request)
                            (d\<lparr>ros_log := ros_log d @ [ErrRequestCancelled]\<rparr>))
              = camera_queue d @ [reuse request])
       \<and> (\<not> camera_running d \<longrightarrow>
            camera_queue (queueRequest (reuse request)
                            (d\<lparr>ros_log := ros_log d @ [ErrRequestCancelled]\<rparr>))
              = camera_queue d)
       \<and> req_status (reuse request) = RequestPending
       \<and> req_buffers (reuse request) = req_buffers request"
  using assms
  by (simp add: requestComplete_def requeue_def queueRequest_def reuse_def)

theorem requestComplete_cancelled_witness:
  "requestComplete example_externals 0 example_memory
     (example_request RequestCancelled 1000 16) (example_driver 2 False False)
   = Inr ((example_driver 2 False False)
           \<lparr>camera_queue := [reuse (example_request RequestCancelled 1000 16)],
            ros_log := [ErrRequestCancelled]\<rparr>)
   \<and> camera_running (example_driver 2 False False)
   \<and> requestComplete example_externals 0 example_memory
     (example_request RequestCancelled 1000 16) stopped_driver
   = Inr (stopped_driver\<lparr>ros_log := [ErrRequestCancelled]\<rparr>)
   \<and> \<not> camera_running stopped_driver"
  using requestComplete_cancelled
          [of "example_request RequestCancelled 1000 16" example_externals 0 example_memory
              "example_driver 2 False False"]
        requestComplete_cancelled
          [of "example_request RequestCancelled 1000 16" example_externals 0 example_memory
              stopped_driver]
  by (simp add: example_request_def example_driver_def stopped_driver_def queueRequest_def)

text \<open>The claim as it was stated has the request back in the device queue after every
  cancelled completion. On the stopped camera the handler logs the cancellation and
  returns with the queue as empty as it was: the reset request is not in it.\<close>

theorem requestComplete_cancelled_stopped_counterexample:
  "req_status (example_request RequestCancelled 1000 16) = RequestCancelled
   \<and> requestComplete example_externals 0 example_memory
       (example_request RequestCancelled 1000 16) stopped_driver
     = Inr (stopped_driver\<lparr>ros_log := [ErrRequestCancelled]\<rparr>)
   \<and> camera_queue stopped_driver = []
   \<and> camera_queue (stopped_driver\<lparr>ros_log := [ErrRequestCancelled]\<rparr>) = []
   \<and> published (stopped_driver\<lparr>ros_log := [ErrRequestCancelled]\<rparr>) = []"
  by (simp add: requestComplete_def requeue_def queueRequest_def example_request_def
        example_driver_def stopped_driver_def)

subsection \<open>The byte-count assertion\<close>

lemma memcpy_from_not_assert: "memcpy_from mem info off n \<noteq> Inl AssertionFailed"
  by (simp add: memcpy_from_def split: option.splits)

lemma copy_rows_not_assert: "copy_rows mem info w st rows dst \<noteq> Inl AssertionFailed"
proof (induction rows arbitrary: dst)
  case Nil
  show ?case by simp
next
  case (Cons i rows)
  show ?case
  proof (cases "memcpy_from mem info (u32 (i * st)) (u32 (w * 3))")
    case (Inl c)
    with memcpy_from_not_assert [of mem info "u32 (i * st)" "u32 (w * 3)"]
    show ?thesis by simp
  next
    case (Inr bytes)
    with Cons.IH show ?thesis by simp
  qed
qed

lemma assemble_raw_assert:
  "(assemble_raw x mem hdr cfg rs info n = Inl AssertionFailed) \<longleftrightarrow> bi_size info \<noteq> n"
  using memcpy_from_not_assert [of mem info 0 "bi_size info"]
        copy_rows_not_assert [of mem info "cfg_width cfg" "cfg_stride cfg" "[0 ..< cfg_height cfg]"
           "replicate (u32 (cfg_width cfg * cfg_height cfg * 3)) 0"]
  by (auto simp: assemble_raw_def split: sum.splits)

text \<open>
  Claim C10. For a completed frame of a raw format (one buffer in the request), the
  handler stops at the assertion exactly when the mapped length of the buffer differs
  from the sum of the planes' \<^verbatim>\<open>bytesused\<close>, whatever \<^verbatim>\<open>remove_stride_\<close> is: the
  assertion is checked before the two output modes part.
\<close>

theorem requestComplete_assert_both_modes:
  assumes "req_status request = RequestComplete"
    and "length (req_buffers request) = 1"
    and "map_of (req_buffers request) (stream d) = Some buffer"
    and "format_type x (cfg_pixelFormat (stream_cfg d)) = RAW"
  shows "(requestComplete x now mem request (d\<lparr>remove_stride := rs\<rparr>) = Inl AssertionFailed)
         \<longleftrightarrow> bi_size (fst (buffer_info_at (fb_handle buffer) d))
               \<noteq> sum_list (md_bytesused (fb_metadata buffer))"
proof -
  let ?d = "d\<lparr>remove_stride := rs\<rparr>"
  have "requestComplete x now mem request ?d = Inl AssertionFailed \<longleftrightarrow>
        assemble_raw x mem (fst (stamp_header (md_timestamp (fb_metadata buffer)) now ?d))
          (stream_cfg ?d) (remove_stride ?d) (fst (buffer_info_at (fb_handle buffer) ?d))
          (sum_list (md_bytesused (fb_metadata buffer))) = Inl AssertionFailed"
    using assms by (subst requestComplete_raw [where buffer = buffer]) (auto split: sum.splits)
  then show ?thesis
    by (simp add: assemble_raw_assert buffer_info_at_info)
qed

theorem requestComplete_assert_both_modes_witness:
  "requestComplete example_externals 0 example_memory
     (example_request RequestComplete 1000 12)
     ((example_driver 2 False False)\<lparr>remove_stride := True\<rparr>) = Inl AssertionFailed
   \<and> requestComplete example_externals 0 example_memory
     (example_request RequestComplete 1000 12)
     ((example_driver 2 False False)\<lparr>remove_stride := False\<rparr>) = Inl AssertionFailed"
  using requestComplete_assert_both_modes
          [of "example_request RequestComplete 1000 12" "example_driver 2 False False"
              "example_buffer 1000 12" example_externals 0 example_memory True]
        requestComplete_assert_both_modes
          [of "example_request RequestComplete 1000 12" "example_driver 2 False False"
              "example_buffer 1000 12" example_externals 0 example_memory False]
  by (simp add: example_request_def example_driver_def example_buffer_def
        example_externals_def buffer_info_at_def)

subsection \<open>Frames of an unsupported format\<close>

lemma requestComplete_not_raw:
  assumes "req_status request = RequestComplete"
    and "length (req_buffers request) = 1"
    and "map_of (req_buffers request) (stream d) = Some buffer"
    and "format_type x (cfg_pixelFormat (stream_cfg d)) \<noteq> RAW"
  shows "\<exists>d'. requestComplete x now mem request d = Inr d' \<and>
           camera_queue d' = camera_queue d \<and> published d' = published d \<and>
           ros_log d' = ros_log d @ [ErrUnsupportedPixelFormat]"
  using assms
  by (simp add: requestComplete_def Let_def split_beta stamp_header_fields)

text \<open>
  Claim C4, on the code. The camera runs, its queue is empty, and a frame of the
  compressed format 0 completes. The handler logs the error and publishes nothing, but
  it returns at line 665, before lines 682 and 683: the request is not reset and not
  queued again, and the camera's queue stays empty. (\<open>requestComplete_not_raw\<close> is
  the same for every such frame.)
\<close>

theorem requestComplete_unsupported_format_not_requeued:
  "requestComplete example_externals 0 example_memory
     (example_request RequestComplete 1000 16) (example_driver 0 False False)
   = Inr ((example_driver 0 False False)\<lparr>ros_log := [ErrUnsupportedPixelFormat]\<rparr>)
   \<and> camera_queue ((example_driver 0 False False)\<lparr>ros_log := [ErrUnsupportedPixelFormat]\<rparr>) = []
   \<and> camera_running (example_driver 0 False False)"
  by (simp add: requestComplete_def example_externals_def
      example_request_def example_driver_def example_buffer_def
      stamp_header_def Let_def)

subsection \<open>Stride removal\<close>

lemma rows_0_2: "[0 ..< 2::nat] = [0, 1]"
  by (simp add: upt_conv_Cons)

lemma u32_small: "n < 2 ^ 32 \<Longrightarrow> u32 n = n"
  by (simp add: u32_def)

lemma memcpy_from_inside:
  assumes "bi_data info = Some a" and "off + n \<le> bi_size info"
  shows "memcpy_from mem info off n = Inr (map mem [a + off ..< a + off + n])"
  using assms by (simp add: memcpy_from_def)

text \<open>The loop invariant of the row copy: the rows before \<open>k\<close> are in place, packed,
  and the rest of the destination is still to be written.\<close>

lemma copy_rows_packed:
  assumes "bi_data info = Some a"
    and "\<forall>i<h. i * st + w * 3 \<le> bi_size info"
    and "bi_size info < 2 ^ 32" and "h * (w * 3) < 2 ^ 32"
    and "k \<le> h" and "length P = k * (w * 3)" and "length Z = (h - k) * (w * 3)"
  shows "copy_rows mem info w st [k ..< h] (P @ Z) =
           Inr (P @ concat (map (\<lambda>i. map mem [a + i * st ..< a + i * st + w * 3]) [k ..< h]))"
  using assms(5-7)
proof (induction "h - k" arbitrary: k P Z)
  case 0
  then show ?case by simp
next
  case (Suc n)
  then have k: "k < h" by simp
  let ?row = "map mem [a + k * st ..< a + k * st + w * 3]"
  have w3: "w * 3 \<le> h * (w * 3)" using k by (cases h) simp_all
  have kw: "k * (w * 3) + w * 3 \<le> h * (w * 3)"
  proof -
    have "Suc k * (w * 3) \<le> h * (w * 3)" using k by (intro mult_le_mono1) simp
    then show ?thesis by simp
  qed
  have fit: "k * st + w * 3 \<le> bi_size info" using assms(2) k by simp
  have u: "u32 (k * st) = k * st" "u32 (w * 3) = w * 3" "u32 (k * w * 3) = k * (w * 3)"
    using fit assms(3,4) w3 kw by (simp_all add: u32_small mult.assoc)
  have m: "memcpy_from mem info (k * st) (w * 3) = Inr ?row"
    by (rule memcpy_from_inside [OF assms(1) fit])
  have lenZ: "w * 3 \<le> length Z"
    using Suc.prems k by (cases "h - k") simp_all
  have dst: "take (k * (w * 3)) (P @ Z) @ ?row @ drop (k * (w * 3) + w * 3) (P @ Z)
               = (P @ ?row) @ drop (w * 3) Z"
    using Suc.prems by simp
  have step: "copy_rows mem info w st [k ..< h] (P @ Z) =
                copy_rows mem info w st [Suc k ..< h] ((P @ ?row) @ drop (w * 3) Z)"
    using k lenZ Suc.prems(2) by (simp add: upt_conv_Cons u m)
  have "copy_rows mem info w st [Suc k ..< h] ((P @ ?row) @ drop (w * 3) Z) =
          Inr ((P @ ?row) @
               concat (map (\<lambda>i. map mem [a + i * st ..< a + i * st + w * 3]) [Suc k ..< h]))"
  proof (rule Suc.hyps(1))
    show "n = h - Suc k" using Suc.hyps(2) by simp
    show "Suc k \<le> h" using k by simp
    show "length (P @ ?row) = Suc k * (w * 3)" using Suc.prems by simp
    show "length (drop (w * 3) Z) = (h - Suc k) * (w * 3)"
      using Suc.prems by (simp add: diff_mult_distrib)
  qed
  with step show ?case
    using k by (simp add: upt_conv_Cons)
qed

lemma concat_row:
  assumes "\<forall>r\<in>set rows. length r = n" and "i < length rows"
  shows "take n (drop (i * n) (concat rows)) = rows ! i"
  using assms
proof (induction rows arbitrary: i)
  case Nil
  then show ?case by simp
next
  case (Cons r rows)
  show ?case
  proof (cases i)
    case 0
    with Cons.prems show ?thesis by simp
  next
    case (Suc j)
    with Cons.prems have "take n (drop (j * n) (concat rows)) = rows ! j"
      by (intro Cons.IH) auto
    with Cons.prems Suc show ?thesis by simp
  qed
qed

text \<open>Stride removal as the source computes it, with its constant 3: when the sizes
  stay inside 32 bits and every row lies inside the mapped region, the message carries
  a step of \<open>width * 3\<close>, \<open>height * width * 3\<close> bytes, and row \<open>i\<close> is the bytes
  \<open>[i * stride, i * stride + width * 3)\<close> of the buffer.\<close>

lemma assemble_raw_stride_removed:
  assumes "bi_data info = Some a" and "bi_size info = bytesused"
    and "\<forall>i<cfg_height cfg. i * cfg_stride cfg + cfg_width cfg * 3 \<le> bi_size info"
    and "bi_size info < 2 ^ 32" and "cfg_height cfg * (cfg_width cfg * 3) < 2 ^ 32"
    and "cfg_width cfg * 3 < 2 ^ 32"
  shows "\<exists>image_msg. assemble_raw x mem hdr cfg True info bytesused = Inr image_msg \<and>
           img_step image_msg = cfg_width cfg * 3 \<and>
           length (img_data image_msg) = cfg_height cfg * (cfg_width cfg * 3) \<and>
           (\<forall>i<cfg_height cfg.
              take (cfg_width cfg * 3) (drop (i * (cfg_width cfg * 3)) (img_data image_msg))
                = map mem [a + i * cfg_stride cfg ..< a + i * cfg_stride cfg + cfg_width cfg * 3])"
proof -
  let ?w = "cfg_width cfg" and ?h = "cfg_height cfg" and ?st = "cfg_stride cfg"
  let ?row = "\<lambda>i. map mem [a + i * ?st ..< a + i * ?st + ?w * 3]"
  let ?rows = "map ?row [0 ..< ?h]"
  have sz: "u32 (?w * ?h * 3) = ?h * (?w * 3)"
    using assms(5) by (simp add: u32_small mult.assoc mult.left_commute mult.commute)
  have "copy_rows mem info ?w ?st [0 ..< ?h] ([] @ replicate (?h * (?w * 3)) 0) =
          Inr ([] @ concat ?rows)"
    by (rule copy_rows_packed [OF assms(1) assms(3) assms(4) assms(5)]) simp_all
  then have c: "copy_rows mem info ?w ?st [0 ..< ?h] (replicate (u32 (?w * ?h * 3)) 0) =
          Inr (concat ?rows)"
    by (simp add: sz)
  have w3: "u32 (?w * 3) = ?w * 3"
    using assms(6) by (rule u32_small)
  have len: "length (concat ?rows) = ?h * (?w * 3)"
    by (simp add: length_concat comp_def sum_list_triv)
  have row: "take (?w * 3) (drop (i * (?w * 3)) (concat ?rows)) = ?row i" if "i < ?h" for i
  proof -
    have "take (?w * 3) (drop (i * (?w * 3)) (concat ?rows)) = ?rows ! i"
      using that by (intro concat_row) auto
    with that show ?thesis by simp
  qed
  show ?thesis
    using c assms(2) len row w3 by (simp add: assemble_raw_def)
qed

text \<open>
  Claim C5, on the code. The stream has the 8-bit grey format 1 (one byte per pixel),
  width 2, height 2 and stride 8, and stride removal is on. The claim gives rows of
  \<open>2 * 1\<close> bytes, \<open>[0, 1]\<close> and \<open>[8, 9]\<close>, 4 bytes in all. The handler publishes a
  step of \<open>2 * 3 = 6\<close> and 12 bytes: each row is 6 bytes long and carries 4 bytes of
  the padding. (By \<open>assemble_raw_stride_removed\<close> the output is the claim's when a
  pixel has three bytes.)
\<close>

theorem stride_removed_grey_frame:
  "published_payloads
     (requestComplete example_externals 0 example_memory
        (example_request RequestComplete 1000 16) (example_driver 1 True False))
   = [(6, [0, 1, 2, 3, 4, 5, 8, 9, 10, 11, 12, 13])]"
  by (simp add: published_payloads_def requestComplete_def example_externals_def
      example_memory_def example_request_def example_driver_def example_buffer_def
      stamp_header_def buffer_info_at_def assemble_raw_def memcpy_from_def u32_def
      requeue_def publish_def queueRequest_def reuse_def Let_def rows_0_2)


subsection \<open>Time stamps\<close>

lemma requeue_fields:
  "stream_cfg (requeue r d) = stream_cfg d"
  "stream (requeue r d) = stream d"
  "use_ros_time (requeue r d) = use_ros_time d"
  "published (requeue r d) = published d"
  "start_time_offset (requeue r d) = start_time_offset d"
  "start_time_offset_obtained (requeue r d) = start_time_offset_obtained d"
  "parameters (requeue r d) = parameters d"
  "camera_running (requeue r d) = camera_running d"
  by (simp_all add: requeue_def queueRequest_def)

lemma assemble_raw_header:
  "assemble_raw x mem hdr cfg rs info n = Inr image_msg \<Longrightarrow> img_header image_msg = hdr"
  by (auto simp: assemble_raw_def split: if_splits sum.splits)

lemma requestComplete_not_complete:
  assumes "req_status request \<noteq> RequestComplete"
  shows "requestComplete x now mem request d =
           Inr (requeue request
                  (if req_status request = RequestCancelled
                   then d\<lparr>ros_log := ros_log d @ [ErrRequestCancelled]\<rparr> else d))"
  using assms by (simp add: requestComplete_def)

text \<open>One call of the handler, as far as the time stamps go.\<close>

lemma requestComplete_stamp_step:
  assumes ret: "requestComplete x now mem request d = Inr d1"
    and raw: "format_type x (cfg_pixelFormat (stream_cfg d)) = RAW"
  shows "stream d1 = stream d \<and> stream_cfg d1 = stream_cfg d \<and> use_ros_time d1 = use_ros_time d
    \<and> (req_status request \<noteq> RequestComplete \<longrightarrow>
         published_stamps d1 = published_stamps d \<and>
         start_time_offset d1 = start_time_offset d \<and>
         start_time_offset_obtained d1 = start_time_offset_obtained d)
    \<and> (req_status request = RequestComplete \<longrightarrow>
         published_stamps d1 = published_stamps d @
           [hdr_stamp (fst (stamp_header (device_timestamp (stream d) request) now d))] \<and>
         start_time_offset d1 =
           start_time_offset (snd (stamp_header (device_timestamp (stream d) request) now d)) \<and>
         start_time_offset_obtained d1 =
           start_time_offset_obtained
             (snd (stamp_header (device_timestamp (stream d) request) now d)))"
proof (cases "req_status request = RequestComplete")
  case False
  with ret show ?thesis
    by (auto simp: requestComplete_not_complete requeue_fields published_stamps_def
          split: if_splits)
next
  case True
  from ret True have len: "length (req_buffers request) = 1"
    by (auto simp: requestComplete_def split: if_splits)
  from ret True len obtain buffer where
    buf: "map_of (req_buffers request) (stream d) = Some buffer"
    by (auto simp: requestComplete_def split: option.splits)
  let ?ts = "md_timestamp (fb_metadata buffer)"
  let ?hdr = "fst (stamp_header ?ts now d)"
  let ?d2 = "snd (buffer_info_at (fb_handle buffer) (snd (stamp_header ?ts now d)))"
  from ret obtain image_msg where
    asm: "assemble_raw x mem ?hdr (stream_cfg d) (remove_stride d)
            (fst (buffer_info_at (fb_handle buffer) d))
            (sum_list (md_bytesused (fb_metadata buffer))) = Inr image_msg"
    and d1: "d1 = requeue request
                   (publish image_msg \<lparr>cinfo_header = ?hdr, cinfo_calibration = cinfo d\<rparr> ?d2)"
    by (auto simp: requestComplete_raw [OF True len buf raw] split: sum.splits)
  have ts: "device_timestamp (stream d) request = ?ts"
    by (simp add: device_timestamp_def buf)
  have hdr: "img_header image_msg = ?hdr"
    by (rule assemble_raw_header [OF asm])
  show ?thesis
    using True
    by (simp add: d1 ts hdr requeue_fields publish_def published_stamps_def
          buffer_info_at_fields stamp_header_fields)
qed

lemma stamp_header_obtained:
  assumes "use_ros_time d" and "start_time_offset_obtained d"
  shows "hdr_stamp (fst (stamp_header ts now d)) = int ts + start_time_offset d"
    and "start_time_offset (snd (stamp_header ts now d)) = start_time_offset d"
    and "start_time_offset_obtained (snd (stamp_header ts now d))"
  using assms by (simp_all add: stamp_header_def Let_def)

lemma stamp_header_first:
  assumes "use_ros_time d" and "\<not> start_time_offset_obtained d"
  shows "hdr_stamp (fst (stamp_header ts now d)) = int ts + (now - int ts)"
    and "start_time_offset (snd (stamp_header ts now d)) = now - int ts"
    and "start_time_offset_obtained (snd (stamp_header ts now d))"
  using assms by (simp_all add: stamp_header_def Let_def)

lemma stamp_header_device_clock:
  assumes "\<not> use_ros_time d"
  shows "hdr_stamp (fst (stamp_header ts now d)) = int ts"
  using assms by (simp add: stamp_header_def)

text \<open>Runs that start with the offset already captured keep it.\<close>

lemma run_stamps_obtained:
  assumes "run x evs d = Inr d'"
    and "format_type x (cfg_pixelFormat (stream_cfg d)) = RAW"
    and "use_ros_time d" and "start_time_offset_obtained d"
  shows "published_stamps d' = published_stamps d @
           map (\<lambda>(now, ts). int ts + start_time_offset d) (completed_frames (stream d) evs)
       \<and> start_time_offset d' = start_time_offset d \<and> start_time_offset_obtained d'"
  using assms
proof (induction evs arbitrary: d)
  case Nil
  then show ?case by simp
next
  case (Cons ev evs)
  obtain now mem request where ev: "ev = (now, mem, request)"
    by (cases ev) auto
  from Cons.prems(1) ev obtain d1 where
    step: "requestComplete x now mem request d = Inr d1" and rest: "run x evs d1 = Inr d'"
    by (auto split: sum.splits)
  note s = requestComplete_stamp_step [OF step Cons.prems(2)]
  note h = stamp_header_obtained [OF Cons.prems(3) Cons.prems(4)]
  have d1: "format_type x (cfg_pixelFormat (stream_cfg d1)) = RAW" "use_ros_time d1"
    "start_time_offset_obtained d1" "start_time_offset d1 = start_time_offset d"
    "stream d1 = stream d"
    using s h Cons.prems by auto
  from Cons.IH [OF rest d1(1) d1(2) d1(3)] s h d1 show ?case
    by (cases "req_status request = RequestComplete") (simp_all add: ev)
qed

lemma run_stamps_device_clock:
  assumes "run x evs d = Inr d'"
    and "format_type x (cfg_pixelFormat (stream_cfg d)) = RAW"
    and "\<not> use_ros_time d"
  shows "published_stamps d' = published_stamps d @
           map (\<lambda>(now, ts). int ts) (completed_frames (stream d) evs)"
  using assms
proof (induction evs arbitrary: d)
  case Nil
  then show ?case by simp
next
  case (Cons ev evs)
  obtain now mem request where ev: "ev = (now, mem, request)"
    by (cases ev) auto
  from Cons.prems(1) ev obtain d1 where
    step: "requestComplete x now mem request d = Inr d1" and rest: "run x evs d1 = Inr d'"
    by (auto split: sum.splits)
  note s = requestComplete_stamp_step [OF step Cons.prems(2)]
  note h = stamp_header_device_clock [OF Cons.prems(3)]
  have d1: "format_type x (cfg_pixelFormat (stream_cfg d1)) = RAW" "\<not> use_ros_time d1"
    "stream d1 = stream d"
    using s Cons.prems by auto
  from Cons.IH [OF rest d1(1) d1(2)] s h d1 show ?case
    by (cases "req_status request = RequestComplete") (simp_all add: ev)
qed

lemma run_stamps_first:
  assumes "run x evs d = Inr d'"
    and "format_type x (cfg_pixelFormat (stream_cfg d)) = RAW"
    and "use_ros_time d" and "\<not> start_time_offset_obtained d"
  shows "case completed_frames (stream d) evs of
           [] \<Rightarrow> published_stamps d' = published_stamps d \<and> \<not> start_time_offset_obtained d'
         | (now0, ts0) # fs \<Rightarrow>
             published_stamps d' = published_stamps d @
               map (\<lambda>(now, ts). int ts + (now0 - int ts0)) ((now0, ts0) # fs)
             \<and> start_time_offset_obtained d' \<and> start_time_offset d' = now0 - int ts0"
  using assms
proof (induction evs arbitrary: d)
  case Nil
  then show ?case by simp
next
  case (Cons ev evs)
  obtain now mem request where ev: "ev = (now, mem, request)"
    by (cases ev) auto
  from Cons.prems(1) ev obtain d1 where
    step: "requestComplete x now mem request d = Inr d1" and rest: "run x evs d1 = Inr d'"
    by (auto split: sum.splits)
  note s = requestComplete_stamp_step [OF step Cons.prems(2)]
  have d1: "format_type x (cfg_pixelFormat (stream_cfg d1)) = RAW" "use_ros_time d1"
    "stream d1 = stream d"
    using s Cons.prems by auto
  show ?case
  proof (cases "req_status request = RequestComplete")
    case False
    with s Cons.prems(4) have "\<not> start_time_offset_obtained d1"
      and "published_stamps d1 = published_stamps d"
      by auto
    with Cons.IH [OF rest d1(1) d1(2)] d1(3) False show ?thesis
      by (auto simp: ev split: list.splits)
  next
    case True
    note h = stamp_header_first [OF Cons.prems(3) Cons.prems(4)]
    from s h True have o: "start_time_offset_obtained d1"
      "start_time_offset d1 = now - int (device_timestamp (stream d) request)"
      "published_stamps d1 = published_stamps d @
         [int (device_timestamp (stream d) request)
            + (now - int (device_timestamp (stream d) request))]"
      by auto
    from run_stamps_obtained [OF rest d1(1) d1(2) o(1)] o d1(3) True show ?thesis
      by (simp add: ev)
  qed
qed

text \<open>
  Claim C8. Take a run of the handler that starts before any offset was captured, on a
  stream of a raw format. Without \<^verbatim>\<open>use_ros_time\<close>, the stamps published are the
  device timestamps of the completed frames. With it, the offset is wall clock minus
  device timestamp at the first completed frame, it is what the state holds at the end
  of the run however many frames followed, and every published stamp is the device
  timestamp of its frame plus that one offset.
\<close>

theorem published_stamps_of_run:
  assumes "run x evs d = Inr d'"
    and "format_type x (cfg_pixelFormat (stream_cfg d)) = RAW"
    and "\<not> start_time_offset_obtained d"
  shows "if use_ros_time d
         then (case completed_frames (stream d) evs of
                 [] \<Rightarrow> published_stamps d' = published_stamps d \<and>
                       \<not> start_time_offset_obtained d'
               | (now0, ts0) # fs \<Rightarrow>
                   published_stamps d' = published_stamps d @
                     map (\<lambda>(now, ts). int ts + (now0 - int ts0)) ((now0, ts0) # fs)
                   \<and> start_time_offset_obtained d' \<and> start_time_offset d' = now0 - int ts0)
         else published_stamps d' = published_stamps d @
                map (\<lambda>(now, ts). int ts) (completed_frames (stream d) evs)"
proof (cases "use_ros_time d")
  case True
  with run_stamps_first [OF assms(1) assms(2) True assms(3)] show ?thesis
    by simp
next
  case False
  with run_stamps_device_clock [OF assms(1) assms(2) False] show ?thesis
    by simp
qed

lemma example_run:
  "\<exists>d'. run example_externals
          [(5000, example_memory, example_request RequestComplete 1000 16),
           (7000, example_memory, example_request RequestCancelled 1500 16),
           (9000, example_memory, example_request RequestComplete 2000 16)]
          (example_driver 2 False urt) = Inr d'"
  by (simp add: requestComplete_def example_externals_def
      example_request_def example_driver_def example_buffer_def
      stamp_header_def buffer_info_at_def assemble_raw_def memcpy_from_def
      requeue_def publish_def queueRequest_def reuse_def Let_def)

theorem published_stamps_of_run_witness:
  "(\<exists>d'. run example_externals
          [(5000, example_memory, example_request RequestComplete 1000 16),
           (7000, example_memory, example_request RequestCancelled 1500 16),
           (9000, example_memory, example_request RequestComplete 2000 16)]
          (example_driver 2 False True) = Inr d' \<and>
        published_stamps d' = [5000, 6000] \<and> start_time_offset d' = 4000)
   \<and> (\<exists>d'. run example_externals
          [(5000, example_memory, example_request RequestComplete 1000 16),
           (7000, example_memory, example_request RequestCancelled 1500 16),
           (9000, example_memory, example_request RequestComplete 2000 16)]
          (example_driver 2 False False) = Inr d' \<and>
        published_stamps d' = [1000, 2000])"
proof -
  let ?evs = "[(5000, example_memory, example_request RequestComplete 1000 16),
               (7000, example_memory, example_request RequestCancelled 1500 16),
               (9000, example_memory, example_request RequestComplete 2000 16)]"
  have raw: "format_type example_externals
               (cfg_pixelFormat (stream_cfg (example_driver 2 False urt))) = RAW" for urt
    by (simp add: example_externals_def example_driver_def)
  have fresh: "\<not> start_time_offset_obtained (example_driver 2 False urt)" for urt
    by (simp add: example_driver_def)
  have frames: "completed_frames (stream (example_driver 2 False urt)) ?evs
                  = [(5000, 1000), (9000, 2000)]" for urt
    by (simp add: example_driver_def example_request_def example_buffer_def
          device_timestamp_def)
  have start: "published_stamps (example_driver 2 False urt) = []"
    "use_ros_time (example_driver 2 False urt) = urt" for urt
    by (simp_all add: example_driver_def published_stamps_def)
  obtain d1 where d1: "run example_externals ?evs (example_driver 2 False True) = Inr d1"
    using example_run [of True] by blast
  obtain d2 where d2: "run example_externals ?evs (example_driver 2 False False) = Inr d2"
    using example_run [of False] by blast
  from published_stamps_of_run [OF d1 raw fresh]
  have "published_stamps d1 = [5000, 6000] \<and> start_time_offset d1 = 4000"
    unfolding frames start by simp
  moreover from published_stamps_of_run [OF d2 raw fresh]
  have "published_stamps d2 = [1000, 2000]"
    unfolding frames start by simp
  ultimately show ?thesis
    using d1 d2 by blast
qed


subsection \<open>Mapping the buffers\<close>











lemma build_requests_Go:
  "build_requests e bufs d = Go d' \<Longrightarrow>
   camera_running d' = camera_running d \<and> camera_queue d' = camera_queue d \<and>
   parameters d' = parameters d \<and> stream d' = stream d \<and>
   shutdown_requested d' = shutdown_requested d \<and>
   requests d' = requests d @
     map (\<lambda>b. \<lparr>req_status = RequestPending, req_controls = Map.empty ++ parameters d,
               req_buffers = [(stream d, b)]\<rparr>) bufs \<and>
   (\<forall>b\<in>set bufs. \<exists>info. map_buffer (os_mmap e) b = Inr info) \<and>
   (\<forall>h. h \<notin> fb_handle ` set bufs \<longrightarrow> buffer_info d' h = buffer_info d h)"
proof (induction bufs arbitrary: d)
  case Nil
  then show ?case by simp
next
  case (Cons b bufs)
  from Cons.prems obtain info where info: "map_buffer (os_mmap e) b = Inr info"
    by (cases "map_buffer (os_mmap e) b") (auto split: if_splits)
  let ?d1 = "d\<lparr>buffer_info := (buffer_info d)(fb_handle b \<mapsto> info)\<rparr>"
  let ?d2 = "?d1\<lparr>requests := requests ?d1 @
               [\<lparr>req_status = RequestPending, req_controls = Map.empty ++ parameters ?d1,
                 req_buffers = [(stream ?d1, b)]\<rparr>]\<rparr>"
  from Cons.prems info have rest: "build_requests e bufs ?d2 = Go d'"
    by (auto simp: Let_def split: if_splits)
  from Cons.IH [OF rest] info show ?case
    by auto
qed


subsection \<open>Start-up as a whole\<close>

lemma declare_loop_fields:
  "camera_running (declare_loop ge cs d) = camera_running d \<and>
   camera_queue (declare_loop ge cs d) = camera_queue d \<and>
   requests (declare_loop ge cs d) = requests d \<and>
   parameters (declare_loop ge cs d) = parameters d"
proof (induction cs arbitrary: d)
  case Nil
  show ?case by simp
next
  case (Cons c cs)
  obtain cid info where c: "c = (cid, info)" by (cases c)
  show ?case
    by (cases "ge cid") (simp_all add: c Cons.IH Let_def error_shutdown_def)
qed

lemma declareControlParameters_fields:
  "camera_running (declareControlParameters e d) = camera_running d"
  "camera_queue (declareControlParameters e d) = camera_queue d"
  "requests (declareControlParameters e d) = requests d"
  "parameters (declareControlParameters e d) = parameters d"
  by (simp_all add: declareControlParameters_def declare_loop_fields)

lemma call_update_Go:
  "call_update e pv cid d = Go d' \<Longrightarrow>
   camera_running d' = camera_running d \<and> camera_queue d' = camera_queue d \<and>
   requests d' = requests d"
  by (auto simp: call_update_def split: prod.splits upd_result.splits)


lemma stage_control_Go:
  "stage_control e block d = Go d' \<Longrightarrow>
   camera_running d' = camera_running d \<and> camera_queue d' = camera_queue d \<and>
   requests d' = requests d"
  by (auto simp: stage_control_def parameter_ids_at_def
           split: prod.splits option.splits if_splits dest!: call_update_Go)


lemma stage_controls_Go:
  "stage_controls e blocks d = Go d' \<Longrightarrow>
   camera_running d' = camera_running d \<and> camera_queue d' = camera_queue d \<and>
   requests d' = requests d"
proof (induction blocks arbitrary: d)
  case Nil
  then show ?case by simp
next
  case (Cons b blocks)
  from Cons.prems obtain d1 where s: "stage_control e b d = Go d1"
    and r: "stage_controls e blocks d1 = Go d'"
    by (auto split: flow.splits)
  from Cons.IH [OF r] stage_control_Go [OF s] show ?case by simp
qed


lemma fold_queueRequest:
  "camera_running d \<Longrightarrow>
   camera_queue (fold queueRequest rs d) = camera_queue d @ rs \<and>
   camera_running (fold queueRequest rs d) \<and>
   requests (fold queueRequest rs d) = requests d \<and>
   parameters (fold queueRequest rs d) = parameters d \<and>
   buffer_info (fold queueRequest rs d) = buffer_info d \<and>
   shutdown_requested (fold queueRequest rs d) = shutdown_requested d"
  by (induction rs arbitrary: d) (simp_all add: queueRequest_def)



lemma onInit_Go:
  fixes e :: "('v::linorder) init_env"
  assumes "onInit e d = Go d'"
  obtains d1 d2 where
    "stage_controls e control_blocks (declareControlParameters e d) = Go d1"
    "build_requests e (stream_buffers e) d1 = Go d2"
    "camera_start_ok e"
    "d' = (fold queueRequest (requests d2) (d2\<lparr>camera_running := True\<rparr>))
             \<lparr>ros_log := ros_log (fold queueRequest (requests d2) (d2\<lparr>camera_running := True\<rparr>))
                          @ [InfoInitialized]\<rparr>"
  using assms
  by (auto simp: onInit_def Let_def split: flow.splits if_splits)



lemma onInit_pool:
  fixes e :: "('v::linorder) init_env"
  assumes "onInit e d = Go d'" and "requests d = []" and "camera_queue d = []"
  shows "camera_running d' \<and> camera_queue d' = requests d' \<and>
         length (requests d') = length (stream_buffers e) \<and>
         (\<forall>r\<in>set (requests d'). req_controls r = parameters d' \<and>
                                  req_status r = RequestPending)"
proof -
  from assms(1) obtain d1 d2 where
    s: "stage_controls e control_blocks (declareControlParameters e d) = Go d1"
    and b: "build_requests e (stream_buffers e) d1 = Go d2"
    and d': "d' = (fold queueRequest (requests d2) (d2\<lparr>camera_running := True\<rparr>))
             \<lparr>ros_log := ros_log (fold queueRequest (requests d2) (d2\<lparr>camera_running := True\<rparr>))
                          @ [InfoInitialized]\<rparr>"
    by (rule onInit_Go)
  note s' = stage_controls_Go [OF s]
  note b' = build_requests_Go [OF b]
  note f = fold_queueRequest [of "d2\<lparr>camera_running := True\<rparr>" "requests d2"]
  have d1: "requests d1 = []" "camera_queue d1 = []"
    using s' assms(2,3) by (simp_all add: declareControlParameters_fields)
  have q: "camera_queue d' = requests d2" "requests d' = requests d2"
    "parameters d' = parameters d1" "camera_running d'"
    using f b' d1 by (simp_all add: d')
  have r: "requests d2 =
             map (\<lambda>b. \<lparr>req_status = RequestPending, req_controls = Map.empty ++ parameters d1,
                       req_buffers = [(stream d1, b)]\<rparr>) (stream_buffers e)"
    using b' d1 by simp
  show ?thesis
    using q(4) unfolding q(1,2,3) r by auto
qed

subsection \<open>Requests return to the queue\<close>

lemma requeue_running:
  "camera_running d \<Longrightarrow> camera_queue (requeue r d) = camera_queue d @ [reuse r]"
  by (simp add: requeue_def queueRequest_def)

lemma requestComplete_requeue:
  assumes run: "camera_running d"
    and st: "req_status request = RequestCancelled \<or>
             (req_status request = RequestComplete \<and>
              format_type x (cfg_pixelFormat (stream_cfg d)) = RAW)"
    and ret: "requestComplete x now mem request d = Inr d'"
  shows "camera_queue d' = camera_queue d @ [reuse request] \<and>
         parameters d' = parameters d \<and> camera_running d'"
proof (cases "req_status request = RequestComplete")
  case False
  with st have "req_status request = RequestCancelled" by simp
  with ret have "d' = requeue request (d\<lparr>ros_log := ros_log d @ [ErrRequestCancelled]\<rparr>)"
    by (simp add: requestComplete_def)
  with run show ?thesis
    by (simp add: requeue_running requeue_fields)
next
  case True
  with st have raw: "format_type x (cfg_pixelFormat (stream_cfg d)) = RAW" by simp
  from ret True have len: "length (req_buffers request) = 1"
    by (auto simp: requestComplete_def split: if_splits)
  from ret True len obtain buffer where
    buf: "map_of (req_buffers request) (stream d) = Some buffer"
    by (auto simp: requestComplete_def split: option.splits)
  let ?ts = "md_timestamp (fb_metadata buffer)"
  let ?d2 = "snd (buffer_info_at (fb_handle buffer) (snd (stamp_header ?ts now d)))"
  from ret obtain image_msg cinfo_msg where
    d': "d' = requeue request (publish image_msg cinfo_msg ?d2)"
    by (auto simp: requestComplete_raw [OF True len buf raw] split: sum.splits)
  have "camera_running (publish image_msg cinfo_msg ?d2)"
    "camera_queue (publish image_msg cinfo_msg ?d2) = camera_queue d"
    "parameters (publish image_msg cinfo_msg ?d2) = parameters d"
    using run by (simp_all add: publish_def buffer_info_at_fields stamp_header_fields)
  then show ?thesis
    by (simp add: d' requeue_running requeue_fields)
qed

lemma requestComplete_pass_through_returns:
  assumes "req_status request = RequestComplete"
    and "length (req_buffers request) = 1"
    and "map_of (req_buffers request) (stream d) = Some buffer"
    and "format_type x (cfg_pixelFormat (stream_cfg d)) = RAW"
    and "\<not> remove_stride d"
    and "buffer_info d (fb_handle buffer) = Some info"
    and "bi_size info = sum_list (md_bytesused (fb_metadata buffer))"
    and "bi_data info \<noteq> None"
  shows "\<exists>d'. requestComplete x now mem request d = Inr d'"
proof -
  have i: "fst (buffer_info_at (fb_handle buffer) d) = info"
    using assms(6) by (simp add: buffer_info_at_def)
  have "\<exists>bytes. memcpy_from mem info 0 (bi_size info) = Inr bytes"
    using assms(8) by (auto simp: memcpy_from_def)
  then obtain bytes where "memcpy_from mem info 0 (bi_size info) = Inr bytes" ..
  then have "\<exists>image_msg.
      assemble_raw x mem (fst (stamp_header (md_timestamp (fb_metadata buffer)) now d))
       (stream_cfg d) (remove_stride d) info
       (sum_list (md_bytesused (fb_metadata buffer))) = Inr image_msg"
    using assms(5) by (simp add: assemble_raw_def assms(7) [symmetric])
  then obtain image_msg where
    "assemble_raw x mem (fst (stamp_header (md_timestamp (fb_metadata buffer)) now d))
       (stream_cfg d) (remove_stride d) info
       (sum_list (md_bytesused (fb_metadata buffer))) = Inr image_msg" ..
  then show ?thesis
    by (simp add: requestComplete_raw [OF assms(1-4)] i)
qed


subsection \<open>Evaluating the small camera\<close>

lemmas example_defs =
  example_env_def start_driver_def example_mmap_def set_to_def scalar_extent_def
  ExposureTime_def exposure_info_def lopsided_info_def int32_value_def example_buffer_def
  offsetless_buffer_def unbacked_buffer_def lenient_mmap_def

lemmas init_defs =
  onInit_def declareControlParameters_def control_blocks_def stage_control_def
  parameter_ids_at_def call_update_def updateControlParameter_def isNone_def
  cv_less_def cv_greater_def error_shutdown_def map_buffer_def kInvalidOffset_def
  fd_isValid_def fd_get_def u32_def queueRequest_def map_error_line_def

lemmas handler_defs =
  requestComplete_def example_externals_def example_memory_def example_request_def
  example_driver_def example_buffer_def stamp_header_def buffer_info_at_def assemble_raw_def
  memcpy_from_def u32_def requeue_def publish_def queueRequest_def reuse_def Let_def


subsection \<open>The mapped length of a buffer\<close>




subsection \<open>Requests and their controls\<close>

lemma reuse_fields:
  "req_status (reuse r) = RequestPending"
  "req_controls (reuse r) = Map.empty"
  "req_buffers (reuse r) = req_buffers r"
  by (simp_all add: reuse_def)

text \<open>
  Claim C1, amended. While the camera runs, a call of the handler for a cancelled
  request, or for a completed request on a stream of a raw format, that returns has put
  the request, reset, at the end of the camera's queue, whatever the request went
  through before. The reset request is pending, keeps its buffers and has an empty
  control list: the handler writes no control into it and leaves \<^verbatim>\<open>parameters_\<close>
  alone. The call returns for every cancelled request, and for every completed frame in
  pass-through mode whose buffer is mapped with the length the device reports used. The
  staged controls reach a request once: when start-up completes, the queue of the
  running camera is the pool, one pending request for each buffer, each carrying
  exactly the staged controls.
\<close>

theorem requestComplete_resubmits:
  fixes e :: "('v::linorder) init_env"
  shows
  "(camera_running d \<and>
      (req_status request = RequestCancelled \<or>
       (req_status request = RequestComplete \<and>
        format_type x (cfg_pixelFormat (stream_cfg d)) = RAW))
      \<longrightarrow> (\<forall>d'. requestComplete x now mem request d = Inr d' \<longrightarrow>
                camera_queue d' = camera_queue d @ [reuse request] \<and>
                parameters d' = parameters d \<and> camera_running d'))
   \<and> req_status (reuse request) = RequestPending
   \<and> req_controls (reuse request) = Map.empty
   \<and> req_buffers (reuse request) = req_buffers request
   \<and> (req_status request = RequestCancelled
      \<longrightarrow> (\<exists>d'. requestComplete x now mem request d = Inr d'))
   \<and> (req_status request = RequestComplete \<and> length (req_buffers request) = 1 \<and>
      map_of (req_buffers request) (stream d) = Some buffer \<and>
      format_type x (cfg_pixelFormat (stream_cfg d)) = RAW \<and> \<not> remove_stride d \<and>
      buffer_info d (fb_handle buffer) = Some info \<and>
      bi_size info = sum_list (md_bytesused (fb_metadata buffer)) \<and> bi_data info \<noteq> None
      \<longrightarrow> (\<exists>d'. requestComplete x now mem request d = Inr d'))
   \<and> (\<forall>d1. onInit e d0 = Go d1 \<and> requests d0 = [] \<and> camera_queue d0 = []
      \<longrightarrow> camera_running d1 \<and> camera_queue d1 = requests d1 \<and>
          length (requests d1) = length (stream_buffers e) \<and>
          (\<forall>r\<in>set (requests d1). req_controls r = parameters d1 \<and>
                                   req_status r = RequestPending))"
proof (intro conjI impI allI)
  fix d'
  assume "camera_running d \<and>
      (req_status request = RequestCancelled \<or>
       (req_status request = RequestComplete \<and>
        format_type x (cfg_pixelFormat (stream_cfg d)) = RAW))"
    and "requestComplete x now mem request d = Inr d'"
  then show "camera_queue d' = camera_queue d @ [reuse request]"
    "parameters d' = parameters d" "camera_running d'"
    using requestComplete_requeue [of d request x now mem d'] by blast+
next
  assume "req_status request = RequestCancelled"
  then show "\<exists>d'. requestComplete x now mem request d = Inr d'"
    by (simp add: requestComplete_def)
next
  assume "req_status request = RequestComplete \<and> length (req_buffers request) = 1 \<and>
      map_of (req_buffers request) (stream d) = Some buffer \<and>
      format_type x (cfg_pixelFormat (stream_cfg d)) = RAW \<and> \<not> remove_stride d \<and>
      buffer_info d (fb_handle buffer) = Some info \<and>
      bi_size info = sum_list (md_bytesused (fb_metadata buffer)) \<and> bi_data info \<noteq> None"
  then show "\<exists>d'. requestComplete x now mem request d = Inr d'"
    using requestComplete_pass_through_returns [of request d buffer x info now mem] by blast
next
  fix d1
  assume a: "onInit e d0 = Go d1 \<and> requests d0 = [] \<and> camera_queue d0 = []"
  then have "camera_running d1 \<and> camera_queue d1 = requests d1 \<and>
         length (requests d1) = length (stream_buffers e) \<and>
         (\<forall>r\<in>set (requests d1). req_controls r = parameters d1 \<and>
                                  req_status r = RequestPending)"
    using onInit_pool [of e d0 d1] by blast
  then show "camera_running d1" "camera_queue d1 = requests d1"
    "length (requests d1) = length (stream_buffers e)"
    "\<forall>r\<in>set (requests d1). req_controls r = parameters d1 \<and> req_status r = RequestPending"
    by blast+
qed (simp_all add: reuse_fields)

theorem requestComplete_resubmits_witness:
  "(\<exists>d'. requestComplete example_externals 0 example_memory
            (example_request RequestComplete 1000 16) (example_driver 2 False False) = Inr d' \<and>
          camera_queue d' = [reuse (example_request RequestComplete 1000 16)] \<and>
          parameters d' 7 = Some (int32_value 500000))
   \<and> (\<exists>d1. onInit (example_env [''control/exposure_time'' \<mapsto> set_to 500000]
                    [(ExposureTime, exposure_info)] [example_buffer 0 0]) start_driver = Go d1 \<and>
          camera_running d1 \<and>
          map (\<lambda>r. req_controls r 7) (camera_queue d1) = [parameters d1 7] \<and>
          map req_status (camera_queue d1) = [RequestPending])"
proof -
  let ?r = "example_request RequestComplete 1000 16"
  let ?d = "example_driver 2 False False"
  let ?e = "example_env [''control/exposure_time'' \<mapsto> set_to 500000]
              [(ExposureTime, exposure_info)] [example_buffer 0 0]"
  note t = requestComplete_resubmits
             [where d = ?d and request = ?r and x = example_externals and now = 0
                and mem = example_memory and buffer = "example_buffer 1000 16"
                and info = "\<lparr>bi_data = Some 4096, bi_size = 16\<rparr>"
                and e = ?e and ?d0.0 = start_driver]
  have pre: "req_status ?r = RequestComplete \<and> length (req_buffers ?r) = 1 \<and>
      map_of (req_buffers ?r) (stream ?d) = Some (example_buffer 1000 16) \<and>
      format_type example_externals (cfg_pixelFormat (stream_cfg ?d)) = RAW \<and>
      \<not> remove_stride ?d \<and>
      buffer_info ?d (fb_handle (example_buffer 1000 16))
        = Some \<lparr>bi_data = Some 4096, bi_size = 16\<rparr> \<and>
      bi_size \<lparr>bi_data = Some 4096, bi_size = 16\<rparr>
        = sum_list (md_bytesused (fb_metadata (example_buffer 1000 16))) \<and>
      bi_data \<lparr>bi_data = Some 4096, bi_size = 16\<rparr> \<noteq> None"
    by (simp add: example_request_def example_driver_def example_buffer_def
          example_externals_def)
  with t obtain d' where ret: "requestComplete example_externals 0 example_memory ?r ?d = Inr d'"
    by blast
  have "camera_running ?d \<and>
      (req_status ?r = RequestCancelled \<or>
       (req_status ?r = RequestComplete \<and>
        format_type example_externals (cfg_pixelFormat (stream_cfg ?d)) = RAW))"
    using pre by (simp add: example_driver_def)
  with t ret have "camera_queue d' = camera_queue ?d @ [reuse ?r] \<and> parameters d' = parameters ?d"
    by blast
  then have h: "camera_queue d' = [reuse ?r] \<and> parameters d' 7 = Some (int32_value 500000)"
    by (simp add: example_driver_def)
  have "\<exists>d1. onInit ?e start_driver = Go d1"
    by (simp add: example_defs init_defs)
  then obtain d1 where go: "onInit ?e start_driver = Go d1" ..
  then have "onInit ?e start_driver = Go d1 \<and> requests start_driver = [] \<and>
             camera_queue start_driver = []"
    by (simp add: start_driver_def)
  with t have p: "camera_running d1" "camera_queue d1 = requests d1"
    "length (requests d1) = length (stream_buffers ?e)"
    "\<forall>r\<in>set (requests d1). req_controls r = parameters d1 \<and> req_status r = RequestPending"
    by blast+
  from p(3) obtain r where r: "requests d1 = [r]"
    by (cases "requests d1") (auto simp: example_env_def)
  with p(4) have "req_controls r = parameters d1" "req_status r = RequestPending"
    by simp_all
  with p(1,2) r go have i: "\<exists>d1. onInit ?e start_driver = Go d1 \<and> camera_running d1 \<and>
          map (\<lambda>r. req_controls r 7) (camera_queue d1) = [parameters d1 7] \<and>
          map req_status (camera_queue d1) = [RequestPending]"
    by auto
  from ret h i show ?thesis by blast
qed

text \<open>The claim as it was stated has every request back in the queue, with the staged
  controls on it. Control 7 is staged at 500000 and a frame completes: on a stream of
  the raw format 2 the request is back in the queue without control 7, and on a stream
  of the compressed format 0 the queue stays empty.\<close>

theorem requestComplete_drops_controls_counterexample:
  "queued_control 7
     (requestComplete example_externals 0 example_memory
        (example_request RequestComplete 1000 16) (example_driver 2 False False)) = [None]
   \<and> staged_control 7
     (requestComplete example_externals 0 example_memory
        (example_request RequestComplete 1000 16) (example_driver 2 False False))
       = Some (int32_value 500000)
   \<and> queued_control 7
     (requestComplete example_externals 0 example_memory
        (example_request RequestComplete 1000 16) (example_driver 0 False False)) = []
   \<and> staged_control 7
     (requestComplete example_externals 0 example_memory
        (example_request RequestComplete 1000 16) (example_driver 0 False False))
       = Some (int32_value 500000)"
  by (simp add: queued_control_def staged_control_def handler_defs)

subsection \<open>A control with lopsided bounds\<close>

lemma declare_loop_mismatch:
  assumes "ge cid = Some extent"
    and "cv_numElements (ci_min info) \<noteq> cv_numElements (ci_max info)"
  shows "declare_loop ge ((cid, info) # rest) d =
           error_shutdown ErrMinMaxSizes
             (d\<lparr>parameter_ids := (parameter_ids d)(cid_name cid \<mapsto> Some cid)\<rparr>)"
  using assms by (simp add: Let_def)

text \<open>
  Claim C9, on the code. The camera reports one control whose minimum has one element
  and whose maximum has two. \<^verbatim>\<open>declareControlParameters\<close> logs the error, calls
  \<^verbatim>\<open>ros::shutdown()\<close> and returns, to \<^verbatim>\<open>onInit\<close>, which goes on: the buffer is
  mapped, the camera is started and the request is queued with the shutdown pending.
\<close>

theorem onInit_continues_after_size_mismatch:
  "\<exists>d. onInit (example_env Map.empty [(ExposureTime, lopsided_info)] [example_buffer 0 0])
          start_driver = Go d \<and>
       shutdown_requested d \<and> camera_running d \<and> length (camera_queue d) = 1 \<and>
       ros_log d = [InfoAvailableControls, ErrMinMaxSizes, InfoInitialized]"
  by (simp add: example_defs init_defs)

subsection \<open>Controls the device does not declare\<close>

lemma stage_control_undeclared:
  assumes "control_param e key = Some pv"
    and "parameter_ids d name = None \<or> parameter_ids d name = Some None"
  shows "stage_control e (key, name, False) d = Crash NullDeref"
    and "\<exists>d'. stage_control e (key, name, True) d = Go d' \<and> parameters d' = parameters d \<and>
              ros_log d' = ros_log d @ [ErrAwbEnableNotAvailable]"
  using assms by (auto simp: stage_control_def parameter_ids_at_def)

text \<open>
  Claim C2, on the code. The camera declares \<open>ExposureTime\<close> only and the user sets
  \<^verbatim>\<open>control/saturation\<close>. \<^verbatim>\<open>parameter_ids_["Saturation"]\<close> is a null pointer and
  the block reads its \<^verbatim>\<open>type()\<close>: the process dies in \<^verbatim>\<open>onInit\<close>. Only the block of
  \<open>AwbEnable\<close> tests the pointer (\<open>stage_control_undeclared\<close>,
  \<open>onInit_undeclared_AwbEnable\<close>).
\<close>

theorem onInit_undeclared_control_null_dereference:
  "onInit (example_env [''control/saturation'' \<mapsto> set_to 1]
             [(ExposureTime, exposure_info)] [example_buffer 0 0]) start_driver
     = Crash NullDeref"
  by (simp add: example_defs init_defs)

lemma onInit_undeclared_AwbEnable:
  "\<exists>d. onInit (example_env [''control/awb_enable'' \<mapsto> set_to 1]
             [(ExposureTime, exposure_info)] [example_buffer 0 0]) start_driver = Go d \<and>
       parameters d = Map.empty \<and>
       ros_log d = [InfoAvailableControls, InfoControl ''ExposureTime'',
                    ErrAwbEnableNotAvailable, InfoInitialized]"
  by (simp add: example_defs init_defs)

end
